theory Spec2Isabelle
  imports Main "HOL-Library.Sublist"
begin

section \<open>Python values shared by the services\<close>

text \<open>
  JSON values as Python's \<open>json\<close> module and \<open>response.json()\<close> hand them to the code
  (floats are left out: no payload of the event subsystem carries one). A dict keeps
  its items as an association list in insertion order.
\<close>

datatype json =
    JNull
  | JBool bool
  | JInt int
  | JStr string
  | JList "json list"
  | JObj "(string \<times> json) list"

text \<open>\<open>d.get(k)\<close> on a dict: the value of the first item with that key.\<close>

definition dict_get :: "(string \<times> json) list \<Rightarrow> string \<Rightarrow> json option" where
  "dict_get d k = map_of d k"

text \<open>Decimal rendering of integers, as \<open>str(n)\<close> and f-string interpolation do.\<close>

definition digit_char :: "nat \<Rightarrow> char" where
  "digit_char n = ''0123456789'' ! (n mod 10)"

fun str_nat :: "nat \<Rightarrow> string" where
  "str_nat n = (if n < 10 then [digit_char n] else str_nat (n div 10) @ [digit_char n])"

declare str_nat.simps [simp del]

definition str_int :: "int \<Rightarrow> string" where
  "str_int i = (if i < 0 then CHR ''-'' # str_nat (nat (- i)) else str_nat (nat i))"


section \<open>Event schema and envelope: \<open>backend/app/events/schemas.py\<close>\<close>

datatype EventType =
    TASK_CREATED
  | TASK_UPDATED
  | TASK_DELETED
  | TASK_COMPLETED
  | TASK_UNCOMPLETED
  | REMINDER_SCHEDULED
  | REMINDER_TRIGGERED

fun EventType_value :: "EventType \<Rightarrow> string" where
  "EventType_value TASK_CREATED = ''task.created''"
| "EventType_value TASK_UPDATED = ''task.updated''"
| "EventType_value TASK_DELETED = ''task.deleted''"
| "EventType_value TASK_COMPLETED = ''task.completed''"
| "EventType_value TASK_UNCOMPLETED = ''task.uncompleted''"
| "EventType_value REMINDER_SCHEDULED = ''reminder.scheduled''"
| "EventType_value REMINDER_TRIGGERED = ''reminder.triggered''"

datatype Topics = TASK_EVENTS | REMINDERS | TASK_UPDATES

fun Topics_value :: "Topics \<Rightarrow> string" where
  "Topics_value TASK_EVENTS = ''task-events''"
| "Topics_value REMINDERS = ''reminders''"
| "Topics_value TASK_UPDATES = ''task-updates''"

text \<open>
  \<open>class TaskEvent(BaseModel)\<close>: every field but \<open>data\<close> is a \<open>str\<close>; \<open>data\<close> is a
  \<open>Dict[str, Any]\<close>.
\<close>

record TaskEvent =
  te_specversion :: string
  te_id :: string
  te_source :: string
  te_type :: string
  te_datacontenttype :: string
  te_time :: string
  te_version :: string
  te_data :: "(string \<times> json) list"

text \<open>
  \<open>to_dict\<close> is \<open>self.model_dump()\<close>: one item per declared field, in declaration
  order, the payload dict unchanged.
\<close>

definition to_dict :: "TaskEvent \<Rightarrow> (string \<times> json) list" where
  "to_dict e =
     [(''specversion'', JStr (te_specversion e)),
      (''id'', JStr (te_id e)),
      (''source'', JStr (te_source e)),
      (''type'', JStr (te_type e)),
      (''datacontenttype'', JStr (te_datacontenttype e)),
      (''time'', JStr (te_time e)),
      (''version'', JStr (te_version e)),
      (''data'', JObj (te_data e))]"

datatype ValidationError = Missing string | NotAString string | NotADict string

text \<open>
  Constructing the model from a dict, \<open>TaskEvent(**d)\<close>. A field with a default takes
  the default when its key is absent; \<open>type\<close> and \<open>data\<close> are required; a value of the
  wrong type is a validation error. The two default factories (a fresh uuid4 string and
  the current UTC time) are parameters.
\<close>

definition str_field ::
  "(string \<times> json) list \<Rightarrow> string \<Rightarrow> string option \<Rightarrow> ValidationError + string" where
  "str_field d k dflt =
     (case dict_get d k of
        None \<Rightarrow> (case dflt of None \<Rightarrow> Inl (Missing k) | Some v \<Rightarrow> Inr v)
      | Some (JStr s) \<Rightarrow> Inr s
      | Some _ \<Rightarrow> Inl (NotAString k))"

definition dict_field ::
  "(string \<times> json) list \<Rightarrow> string \<Rightarrow> ValidationError + (string \<times> json) list" where
  "dict_field d k =
     (case dict_get d k of
        None \<Rightarrow> Inl (Missing k)
      | Some (JObj items) \<Rightarrow> Inr items
      | Some _ \<Rightarrow> Inl (NotADict k))"

definition parse_TaskEvent ::
  "string \<Rightarrow> string \<Rightarrow> (string \<times> json) list \<Rightarrow> ValidationError + TaskEvent" where
  "parse_TaskEvent fresh_uuid utcnow d =
     (case str_field d ''specversion'' (Some ''1.0'') of Inl err \<Rightarrow> Inl err | Inr sv \<Rightarrow>
      case str_field d ''id'' (Some fresh_uuid) of Inl err \<Rightarrow> Inl err | Inr i \<Rightarrow>
      case str_field d ''source'' (Some ''todo-backend'') of Inl err \<Rightarrow> Inl err | Inr src \<Rightarrow>
      case str_field d ''type'' None of Inl err \<Rightarrow> Inl err | Inr ty \<Rightarrow>
      case str_field d ''datacontenttype'' (Some ''application/json'') of
        Inl err \<Rightarrow> Inl err | Inr ct \<Rightarrow>
      case str_field d ''time'' (Some utcnow) of Inl err \<Rightarrow> Inl err | Inr tm \<Rightarrow>
      case str_field d ''version'' (Some ''1.0'') of Inl err \<Rightarrow> Inl err | Inr ver \<Rightarrow>
      case dict_field d ''data'' of Inl err \<Rightarrow> Inl err | Inr dat \<Rightarrow>
        Inr \<lparr>te_specversion = sv, te_id = i, te_source = src, te_type = ty,
             te_datacontenttype = ct, te_time = tm, te_version = ver, te_data = dat\<rparr>)"

text \<open>\<open>TaskCompletedEvent.from_task\<close>, the constructor the completion route uses.\<close>

definition TaskCompletedEvent_from_task ::
  "string \<Rightarrow> string \<Rightarrow> int \<Rightarrow> string \<Rightarrow> string \<Rightarrow> bool \<Rightarrow> TaskEvent" where
  "TaskCompletedEvent_from_task fresh_uuid utcnow task_id user_id title completed =
     \<lparr>te_specversion = ''1.0'', te_id = fresh_uuid, te_source = ''todo-backend'',
      te_type = (if completed then EventType_value TASK_COMPLETED
                 else EventType_value TASK_UNCOMPLETED),
      te_datacontenttype = ''application/json'', te_time = utcnow, te_version = ''1.0'',
      te_data = [(''task_id'', JInt task_id), (''user_id'', JStr user_id),
                 (''title'', JStr title), (''completed'', JBool completed)]\<rparr>"


section \<open>Event publisher: \<open>backend/app/events/publisher.py\<close>\<close>

text \<open>The request timeout is a float that no branch of \<open>publish\<close> inspects; it is left out.\<close>

record EventPublisher =
  dapr_host :: string
  dapr_port :: int
  pubsub_name :: string
  enabled :: bool

definition base_url :: "EventPublisher \<Rightarrow> string" where
  "base_url p = ''http://'' @ dapr_host p @ '':'' @ str_int (dapr_port p)"

definition publish_url :: "EventPublisher \<Rightarrow> string" where
  "publish_url p = base_url p @ ''/v1.0/publish/'' @ pubsub_name p"

record http_post =
  post_url :: string
  post_content_type :: string
  post_json :: "(string \<times> json) list"

text \<open>
  What one \<open>client.post\<close> inside the \<open>try\<close> can do: answer with a status code, or raise.
  \<open>httpx.ConnectError\<close>, \<open>httpx.TimeoutException\<close> and every other subclass of
  \<open>Exception\<close> have a handler; a \<open>BaseException\<close> that is not an \<open>Exception\<close> (task
  cancellation) has none and leaves \<open>publish\<close>.
\<close>

datatype attempt_outcome =
    Status int
  | ConnectError
  | TimeoutException
  | OtherException
  | Cancelled

datatype raised = CancelledError

text \<open>
  The loop \<open>for attempt in range(retry_count)\<close>, with the requests issued so far as the
  state. The network is a function from the attempt number to what that attempt does.
\<close>

fun publish_loop ::
  "(nat \<Rightarrow> attempt_outcome) \<Rightarrow> http_post \<Rightarrow> int \<Rightarrow> nat list \<Rightarrow> http_post list
     \<Rightarrow> (raised + bool) \<times> http_post list" where
  "publish_loop net req retry_count [] sent = (Inr False, sent)"
| "publish_loop net req retry_count (attempt # rest) sent =
     (case net attempt of
        Status code \<Rightarrow>
          if code = 200 \<or> code = 204 then (Inr True, sent @ [req])
          else publish_loop net req retry_count rest (sent @ [req])
      | ConnectError \<Rightarrow>
          if int attempt = retry_count - 1 then (Inr False, sent @ [req])
          else publish_loop net req retry_count rest (sent @ [req])
      | TimeoutException \<Rightarrow> publish_loop net req retry_count rest (sent @ [req])
      | OtherException \<Rightarrow> publish_loop net req retry_count rest (sent @ [req])
      | Cancelled \<Rightarrow> (Inl CancelledError, sent @ [req]))"

definition publish ::
  "EventPublisher \<Rightarrow> (nat \<Rightarrow> attempt_outcome) \<Rightarrow> Topics \<Rightarrow> TaskEvent \<Rightarrow> int
     \<Rightarrow> http_post list \<Rightarrow> (raised + bool) \<times> http_post list" where
  "publish p net topic event retry_count sent =
     (if \<not> enabled p then (Inr True, sent)
      else
        let url = publish_url p @ ''/'' @ Topics_value topic;
            payload = to_dict event
        in publish_loop net
             \<lparr>post_url = url, post_content_type = ''application/cloudevents+json'',
              post_json = payload\<rparr>
             retry_count [0 ..< nat retry_count] sent)"

definition publish_to_task_events ::
  "EventPublisher \<Rightarrow> (nat \<Rightarrow> attempt_outcome) \<Rightarrow> TaskEvent \<Rightarrow> http_post list
     \<Rightarrow> (raised + bool) \<times> http_post list" where
  "publish_to_task_events p net event sent = publish p net TASK_EVENTS event 3 sent"

text \<open>An attempt fails when it raises one of the handled exceptions or answers with a
  status other than 200 and 204.\<close>

fun attempt_fails :: "attempt_outcome \<Rightarrow> bool" where
  "attempt_fails (Status code) = (code \<noteq> 200 \<and> code \<noteq> 204)"
| "attempt_fails ConnectError = True"
| "attempt_fails TimeoutException = True"
| "attempt_fails OtherException = True"
| "attempt_fails Cancelled = False"


section \<open>Calendar dates: Python's \<open>datetime.date\<close> and dateutil's \<open>relativedelta\<close>\<close>

text \<open>
  The recurrence service computes on \<open>datetime.date\<close> values. The library is not part
  of the repository; its proleptic Gregorian arithmetic is written out here as the
  library defines it: ordinals count days from 0001-01-01 (ordinal 1), the largest date
  is 9999-12-31 (ordinal 3652059), and arithmetic that leaves this range raises.
\<close>

record date =
  d_year :: int
  d_month :: int
  d_day :: int

definition is_leap :: "int \<Rightarrow> bool" where
  "is_leap y = (y mod 4 = 0 \<and> (y mod 100 \<noteq> 0 \<or> y mod 400 = 0))"

definition days_in_month :: "int \<Rightarrow> int \<Rightarrow> int" where
  "days_in_month y m =
     (if m = 2 then (if is_leap y then 29 else 28)
      else if m = 4 \<or> m = 6 \<or> m = 9 \<or> m = 11 then 30 else 31)"

definition days_before_year :: "int \<Rightarrow> int" where
  "days_before_year y = (y - 1) * 365 + (y - 1) div 4 - (y - 1) div 100 + (y - 1) div 400"

definition days_before_month :: "int \<Rightarrow> int \<Rightarrow> int" where
  "days_before_month y m =
     [0, 31, 59, 90, 120, 151, 181, 212, 243, 273, 304, 334] ! nat (m - 1)
       + (if m > 2 \<and> is_leap y then 1 else 0)"

definition valid_date :: "int \<Rightarrow> int \<Rightarrow> int \<Rightarrow> bool" where
  "valid_date y m d =
     (1 \<le> y \<and> y \<le> 9999 \<and> 1 \<le> m \<and> m \<le> 12 \<and> 1 \<le> d \<and> d \<le> days_in_month y m)"

definition toordinal :: "date \<Rightarrow> int" where
  "toordinal dt =
     days_before_year (d_year dt) + days_before_month (d_year dt) (d_month dt) + d_day dt"

definition MAXORDINAL :: int where
  "MAXORDINAL = 3652059"

text \<open>
  \<open>date.fromordinal\<close>, by the 400/100/4/1-year cycle decomposition the library uses.
  Its last step finds the month and the day from the 0-based day of the year: an
  estimate of the month that is exact or one too large, then the correction.
\<close>

definition month_and_day :: "bool \<Rightarrow> int \<Rightarrow> int \<times> int" where
  "month_and_day leapyear n =
     (let month = (n + 50) div 32;
          preceding =
            [0, 31, 59, 90, 120, 151, 181, 212, 243, 273, 304, 334] ! nat (month - 1)
              + (if month > 2 \<and> leapyear then 1 else 0)
      in if preceding > n
         then
           let month' = month - 1;
               preceding' =
                 preceding
                   - ([31, 28, 31, 30, 31, 30, 31, 31, 30, 31, 30, 31] ! nat (month' - 1)
                        + (if month' = 2 \<and> leapyear then 1 else 0))
           in (month', n - preceding' + 1)
         else (month, n - preceding + 1))"

definition fromordinal :: "int \<Rightarrow> date" where
  "fromordinal n0 =
     (let n = n0 - 1;
          n400 = n div 146097; n = n mod 146097;
          n100 = n div 36524; n = n mod 36524;
          n4 = n div 1461; n = n mod 1461;
          n1 = n div 365; n = n mod 365;
          year = n400 * 400 + 1 + n100 * 100 + n4 * 4 + n1
      in if n1 = 4 \<or> n100 = 4 then \<lparr>d_year = year - 1, d_month = 12, d_day = 31\<rparr>
         else
           let leapyear = (n1 = 3 \<and> (n4 \<noteq> 24 \<or> n100 = 3));
               (month, day) = month_and_day leapyear n
           in \<lparr>d_year = year, d_month = month, d_day = day\<rparr>)"

text \<open>\<open>date + timedelta(days=n)\<close>; \<open>None\<close> is the \<open>OverflowError\<close>.\<close>

definition date_add_days :: "date \<Rightarrow> int \<Rightarrow> date option" where
  "date_add_days dt n =
     (let ordinal = toordinal dt + n
      in if 0 < ordinal \<and> ordinal \<le> MAXORDINAL then Some (fromordinal ordinal) else None)"

text \<open>
  \<open>date + relativedelta(years=ys, months=ms)\<close>. The constructor first normalises a
  month count beyond 11 into years and a remainder of the same sign; the addition
  moves the year and month, clips the day to the length of the target month, and
  \<open>date.replace\<close> raises \<open>ValueError\<close> (here \<open>None\<close>) for a year outside 1..9999.
\<close>

definition relativedelta_fix :: "int \<Rightarrow> int \<Rightarrow> int \<times> int" where
  "relativedelta_fix ys ms =
     (if \<bar>ms\<bar> > 11
      then let s = (if ms < 0 then - 1 else 1)
           in (ys + ((ms * s) div 12) * s, ((ms * s) mod 12) * s)
      else (ys, ms))"

definition date_add_relativedelta :: "date \<Rightarrow> int \<Rightarrow> int \<Rightarrow> date option" where
  "date_add_relativedelta dt ys ms =
     (let (years, months) = relativedelta_fix ys ms;
          year = d_year dt + years;
          month = d_month dt + months;
          (year, month) =
            (if month > 12 then (year + 1, month - 12)
             else if month < 1 then (year - 1, month + 12)
             else (year, month));
          day = min (days_in_month year month) (d_day dt)
      in if 1 \<le> year \<and> year \<le> 9999
         then Some \<lparr>d_year = year, d_month = month, d_day = day\<rparr> else None)"

text \<open>\<open>a > b\<close> on dates.\<close>

definition date_gt :: "date \<Rightarrow> date \<Rightarrow> bool" where
  "date_gt a b =
     (d_year a > d_year b
      \<or> (d_year a = d_year b
          \<and> (d_month a > d_month b \<or> (d_month a = d_month b \<and> d_day a > d_day b))))"

text \<open>\<open>date.isoformat()\<close>: \<open>YYYY-MM-DD\<close>, zero padded.\<close>

definition zero_pad :: "nat \<Rightarrow> string \<Rightarrow> string" where
  "zero_pad w s = replicate (w - length s) (CHR ''0'') @ s"

definition isoformat :: "date \<Rightarrow> string" where
  "isoformat dt =
     zero_pad 4 (str_nat (nat (d_year dt))) @ ''-'' @ zero_pad 2 (str_nat (nat (d_month dt)))
       @ ''-'' @ zero_pad 2 (str_nat (nat (d_day dt)))"

text \<open>
  \<open>date.fromisoformat\<close> on the form \<open>isoformat\<close> writes, \<open>YYYY-MM-DD\<close> with ASCII
  digits; \<open>None\<close> is the \<open>ValueError\<close>. (Python 3.11 and later also read the basic and
  week forms of ISO 8601, which the service never writes; they are not modelled.)
\<close>

definition digit_val :: "char \<Rightarrow> int option" where
  "digit_val c =
     (if c = CHR ''0'' then Some 0 else if c = CHR ''1'' then Some 1
      else if c = CHR ''2'' then Some 2 else if c = CHR ''3'' then Some 3
      else if c = CHR ''4'' then Some 4 else if c = CHR ''5'' then Some 5
      else if c = CHR ''6'' then Some 6 else if c = CHR ''7'' then Some 7
      else if c = CHR ''8'' then Some 8 else if c = CHR ''9'' then Some 9
      else None)"

fun parse_digits :: "string \<Rightarrow> int \<Rightarrow> int option" where
  "parse_digits [] acc = Some acc"
| "parse_digits (c # cs) acc =
     (case digit_val c of None \<Rightarrow> None | Some v \<Rightarrow> parse_digits cs (acc * 10 + v))"

definition fromisoformat :: "string \<Rightarrow> date option" where
  "fromisoformat s =
     (if length s = 10 \<and> s ! 4 = CHR ''-'' \<and> s ! 7 = CHR ''-''
      then
        (case (parse_digits (take 4 s) 0, parse_digits (take 2 (drop 5 s)) 0,
               parse_digits (drop 8 s) 0) of
           (Some y, Some m, Some d) \<Rightarrow>
             if valid_date y m d then Some \<lparr>d_year = y, d_month = m, d_day = d\<rparr> else None
         | _ \<Rightarrow> None)
      else None)"


section \<open>Delivered events, as the consumers read them\<close>

text \<open>
  Every consumer reads the delivered CloudEvent with \<open>event.get(...)\<close> and its payload
  with \<open>data.get(...)\<close>. A missing key is \<open>None\<close>; the values carry the types the
  publisher's schema gives them (\<open>task_id: int\<close>, \<open>user_id: str\<close>, \<open>title: str\<close>,
  \<open>completed: bool\<close>, \<open>changes\<close> a dict). An absent \<open>data\<close> reads as the empty dict,
  which is the payload with every key missing.
\<close>

record event_data =
  ed_task_id :: "int option"
  ed_entity_id :: "int option"
  ed_user_id :: "string option"
  ed_title :: "string option"
  ed_completed :: "bool option"
  ed_due_date :: "string option"
  ed_changes :: "(string \<times> json) list option"

record cloud_event =
  ev_id :: "string option"
  ev_type :: "string option"
  ev_source :: "string option"
  ev_time :: "string option"
  ev_metadata :: "json option"
  ev_data :: "event_data option"

definition empty_data :: event_data where
  "empty_data =
     \<lparr>ed_task_id = None, ed_entity_id = None, ed_user_id = None, ed_title = None,
      ed_completed = None, ed_due_date = None, ed_changes = None\<rparr>"

text \<open>\<open>event.get("data", {})\<close>.\<close>

definition get_data :: "cloud_event \<Rightarrow> event_data" where
  "get_data event = (case ev_data event of None \<Rightarrow> empty_data | Some d \<Rightarrow> d)"

text \<open>
  \<open>await request.json()\<close> raises on a body that is not JSON; the handler's \<open>try\<close> block
  starts with it.
\<close>

datatype 'a request_json = JsonError | Json 'a

text \<open>Python truthiness of an optional string: \<open>None\<close> and \<open>""\<close> are falsy.\<close>

definition truthy_str :: "string option \<Rightarrow> bool" where
  "truthy_str v = (case v of None \<Rightarrow> False | Some s \<Rightarrow> s \<noteq> [])"


section \<open>Recurrence consumer: \<open>services/recurring/main.py\<close>\<close>

datatype RecurrencePattern = DAILY | WEEKLY | BIWEEKLY | MONTHLY | YEARLY

record RecurrenceConfig =
  pattern :: RecurrencePattern
  interval :: int
  end_date :: "string option"
  max_occurrences :: "int option"
  occurrences_created :: int

text \<open>
  The last branch of the source (\<open>else: current_due_date + timedelta(days=interval)\<close>)
  is for a value outside the enumeration; the five patterns cover the datatype.
\<close>

fun calculate_next_due_date :: "date \<Rightarrow> RecurrencePattern \<Rightarrow> int \<Rightarrow> date option" where
  "calculate_next_due_date current_due_date DAILY n = date_add_days current_due_date n"
| "calculate_next_due_date current_due_date WEEKLY n = date_add_days current_due_date (7 * n)"
| "calculate_next_due_date current_due_date BIWEEKLY n =
     date_add_days current_due_date (7 * (2 * n))"
| "calculate_next_due_date current_due_date MONTHLY n =
     date_add_relativedelta current_due_date 0 n"
| "calculate_next_due_date current_due_date YEARLY n =
     date_add_relativedelta current_due_date n 0"

text \<open>
  The stored value under \<open>recurrence-{task_id}\<close>: the config, the task template
  (\<open>task_data\<close>, a dict the caller chose) and the optional back-reference.
\<close>

record recurrence_state =
  rs_config :: RecurrenceConfig
  rs_task_data :: "(string \<times> json) list"
  rs_parent_task_id :: "int option"

text \<open>
  The state-store key \<open>f"recurrence-{task_id}"\<close>, from the text the f-string prints for
  the id; for an integer id that is its decimal form, and \<open>None\<close> prints as \<open>None\<close>.
\<close>

definition key_for :: "string \<Rightarrow> string" where
  "key_for printed_id = ''recurrence-'' @ printed_id"

definition state_key :: "int option \<Rightarrow> string" where
  "state_key task_id = key_for (case task_id of None \<Rightarrow> ''None'' | Some n \<Rightarrow> str_int n)"

text \<open>
  What an f-string prints for the value of \<open>d.get(k)\<close>: \<open>None\<close> for a missing key and
  for null, \<open>True\<close> or \<open>False\<close> for a boolean, the digits of an integer, a string as it
  is. For a list or a dict it prints Python's \<open>repr\<close>, which is a parameter here.
\<close>

fun printed :: "(json \<Rightarrow> string) \<Rightarrow> json option \<Rightarrow> string" where
  "printed repr None = ''None''"
| "printed repr (Some JNull) = ''None''"
| "printed repr (Some (JBool b)) = (if b then ''True'' else ''False'')"
| "printed repr (Some (JInt n)) = str_int n"
| "printed repr (Some (JStr s)) = s"
| "printed repr (Some (JList xs)) = repr (JList xs)"
| "printed repr (Some (JObj items)) = repr (JObj items)"

type_synonym state_store = "string \<rightharpoonup> recurrence_state"

text \<open>
  What the service cannot decide by itself: the date, whether a call to the state
  store goes through (an exception or a status other than 200/204 is a failed call,
  which leaves the store as it was), what the backend answers to a creation request,
  and Python's \<open>repr\<close> of a list or dict.
\<close>

record create_request =
  cr_title :: json
  cr_description :: json
  cr_priority :: json
  cr_category :: json
  cr_due_date :: string

datatype backend_reply =
    NoReply
  | Reply int "(string \<times> json) list option"

record recurring_env =
  re_today :: date
  re_get_ok :: bool
  re_save_ok :: bool
  re_delete_ok :: bool
  re_backend :: "create_request \<Rightarrow> backend_reply"
  re_repr :: "json \<Rightarrow> string"

definition get_recurrence_state ::
  "recurring_env \<Rightarrow> state_store \<Rightarrow> int \<Rightarrow> recurrence_state option" where
  "get_recurrence_state env store task_id =
     (if re_get_ok env then store (state_key (Some task_id)) else None)"

text \<open>
  \<open>save_recurrence_state\<close> is the one store call whose id does not come from the typed
  event: the handler passes it \<open>new_task.get("id")\<close>, whatever the backend returned.
  It takes the id as the text the f-string prints for it.
\<close>

definition save_recurrence_state ::
  "recurring_env \<Rightarrow> state_store \<Rightarrow> string \<Rightarrow> recurrence_state \<Rightarrow> bool \<times> state_store" where
  "save_recurrence_state env store printed_id state =
     (if re_save_ok env then (True, store(key_for printed_id \<mapsto> state)) else (False, store))"

definition delete_recurrence_state ::
  "recurring_env \<Rightarrow> state_store \<Rightarrow> int \<Rightarrow> bool \<times> state_store" where
  "delete_recurrence_state env store task_id =
     (if re_delete_ok env then (True, store(state_key (Some task_id) := None))
      else (False, store))"

text \<open>
  \<open>create_next_task\<close>: the body of a 201 answer, \<open>None\<close> for any other status, for an
  exception of the call and for a body that is not JSON (\<open>response.json()\<close> raises
  inside the same \<open>try\<close>).
\<close>

definition create_next_task ::
  "recurring_env \<Rightarrow> create_request \<Rightarrow> (string \<times> json) list option" where
  "create_next_task env req =
     (case re_backend env req of
        NoReply \<Rightarrow> None
      | Reply status_code body \<Rightarrow> if status_code = 201 then body else None)"

text \<open>\<open>d.get(k, default)\<close> and \<open>{**d, k: v}\<close> on a dict.\<close>

definition dict_get_default :: "(string \<times> json) list \<Rightarrow> string \<Rightarrow> json \<Rightarrow> json" where
  "dict_get_default d k dflt = (case dict_get d k of None \<Rightarrow> dflt | Some v \<Rightarrow> v)"

fun dict_set :: "(string \<times> json) list \<Rightarrow> string \<Rightarrow> json \<Rightarrow> (string \<times> json) list" where
  "dict_set [] k v = [(k, v)]"
| "dict_set ((k', v') # d) k v = (if k' = k then (k, v) # d else (k', v') # dict_set d k v)"

text \<open>The key under which the handler saves the next state: that of \<open>new_task.get("id")\<close>.\<close>

definition new_task_key :: "recurring_env \<Rightarrow> (string \<times> json) list \<Rightarrow> string" where
  "new_task_key env new_task = key_for (printed (re_repr env) (dict_get new_task ''id''))"

text \<open>
  \<open>date.fromisoformat(task_data.get("due_date", date.today().isoformat()))\<close>: a value
  that is not a string raises \<open>TypeError\<close>, a string that is not a date \<open>ValueError\<close>;
  both are \<open>None\<close> here.
\<close>

definition current_due_of :: "recurring_env \<Rightarrow> (string \<times> json) list \<Rightarrow> date option" where
  "current_due_of env task_data =
     (case dict_get_default task_data ''due_date'' (JStr (isoformat (re_today env))) of
        JStr s \<Rightarrow> fromisoformat s
      | _ \<Rightarrow> None)"

text \<open>
  The two end checks of the handler, in the source's order. Each is an \<open>if\<close> of its
  own, so both may delete. \<open>None\<close> is the \<open>ValueError\<close> of an \<open>end_date\<close> that is not a
  date; the result is the store and \<open>should_create\<close>.
\<close>

definition check_end_date ::
  "recurring_env \<Rightarrow> state_store \<Rightarrow> int \<Rightarrow> RecurrenceConfig \<Rightarrow> (state_store \<times> bool) option" where
  "check_end_date env store task_id config =
     (case end_date config of
        None \<Rightarrow> Some (store, True)
      | Some s \<Rightarrow>
          if s = [] then Some (store, True)
          else (case fromisoformat s of
                  None \<Rightarrow> None
                | Some ed \<Rightarrow>
                    if date_gt (re_today env) ed
                    then Some (snd (delete_recurrence_state env store task_id), False)
                    else Some (store, True)))"

definition check_max_occurrences ::
  "recurring_env \<Rightarrow> state_store \<Rightarrow> int \<Rightarrow> RecurrenceConfig \<Rightarrow> bool \<Rightarrow> state_store \<times> bool" where
  "check_max_occurrences env store task_id config should_create =
     (case max_occurrences config of
        None \<Rightarrow> (store, should_create)
      | Some m \<Rightarrow>
          if m \<noteq> 0 \<and> occurrences_created config \<ge> m
          then (snd (delete_recurrence_state env store task_id), False)
          else (store, should_create))"

record recurring_result =
  rr_status :: string
  rr_store :: state_store
  rr_created :: "create_request list"

text \<open>The JSON body \<open>create_next_task\<close> posts, from the template and the next date.\<close>

definition next_task_request :: "(string \<times> json) list \<Rightarrow> date \<Rightarrow> create_request" where
  "next_task_request task_data next_due =
     \<lparr>cr_title = dict_get_default task_data ''title'' (JStr ''Recurring Task''),
      cr_description = dict_get_default task_data ''description'' JNull,
      cr_priority = dict_get_default task_data ''priority'' (JStr ''medium''),
      cr_category = dict_get_default task_data ''category'' (JStr ''other''),
      cr_due_date = isoformat next_due\<rparr>"

text \<open>
  The \<open>if should_create:\<close> block. \<open>if new_task:\<close> is false for \<open>None\<close> and for an empty
  dict; the result of \<open>save_recurrence_state\<close> is awaited and dropped.
\<close>

definition spawn_next ::
  "recurring_env \<Rightarrow> state_store \<Rightarrow> int \<Rightarrow> recurrence_state \<Rightarrow> recurring_result" where
  "spawn_next env store task_id recurrence_state =
     (let config = rs_config recurrence_state;
          task_data = rs_task_data recurrence_state
      in case current_due_of env task_data of
           None \<Rightarrow> \<lparr>rr_status = ''RETRY'', rr_store = store, rr_created = []\<rparr>
         | Some current_due \<Rightarrow>
             (case calculate_next_due_date current_due (pattern config) (interval config) of
                None \<Rightarrow> \<lparr>rr_status = ''RETRY'', rr_store = store, rr_created = []\<rparr>
              | Some next_due \<Rightarrow>
                  let req = next_task_request task_data next_due
                  in (case create_next_task env req of
                        None \<Rightarrow> \<lparr>rr_status = ''SUCCESS'', rr_store = store, rr_created = [req]\<rparr>
                      | Some new_task \<Rightarrow>
                          if new_task = []
                          then \<lparr>rr_status = ''SUCCESS'', rr_store = store, rr_created = [req]\<rparr>
                          else
                            let new_state =
                                  \<lparr>rs_config =
                                     config\<lparr>occurrences_created := occurrences_created config + 1\<rparr>,
                                   rs_task_data =
                                     dict_set task_data ''due_date'' (JStr (isoformat next_due)),
                                   rs_parent_task_id = Some task_id\<rparr>
                            in \<lparr>rr_status = ''SUCCESS'',
                                rr_store =
                                  snd (save_recurrence_state env store
                                         (printed (re_repr env) (dict_get new_task ''id''))
                                         new_state),
                                rr_created = [req]\<rparr>)))"

text \<open>
  \<open>handle_task_events\<close> of the recurrence service. Every exception inside the \<open>try\<close>
  ends in \<open>{"status": "RETRY"}\<close>. The guard \<open>not completed or not task_id or not user_id\<close>
  is written with the task id unpacked: a missing id and the id 0 are both falsy. The
  \<open>user_id\<close> is handed to \<open>create_next_task\<close>, which sends neither it nor a token.
\<close>

definition recurring_handle_task_events ::
  "recurring_env \<Rightarrow> state_store \<Rightarrow> cloud_event request_json \<Rightarrow> recurring_result" where
  "recurring_handle_task_events env store request =
     (case request of
        JsonError \<Rightarrow> \<lparr>rr_status = ''RETRY'', rr_store = store, rr_created = []\<rparr>
      | Json event \<Rightarrow>
          let event_type = (case ev_type event of None \<Rightarrow> [] | Some t \<Rightarrow> t)
          in if event_type \<noteq> ''task.completed''
             then \<lparr>rr_status = ''SUCCESS'', rr_store = store, rr_created = []\<rparr>
             else
               let data = get_data event;
                   user_id = ed_user_id data;
                   completed = (case ed_completed data of None \<Rightarrow> False | Some b \<Rightarrow> b)
               in (case ed_task_id data of
                     None \<Rightarrow> \<lparr>rr_status = ''SUCCESS'', rr_store = store, rr_created = []\<rparr>
                   | Some task_id \<Rightarrow>
                       if \<not> completed \<or> task_id = 0 \<or> \<not> truthy_str user_id
                       then \<lparr>rr_status = ''SUCCESS'', rr_store = store, rr_created = []\<rparr>
                       else
                         (case get_recurrence_state env store task_id of
                            None \<Rightarrow>
                              \<lparr>rr_status = ''SUCCESS'', rr_store = store, rr_created = []\<rparr>
                          | Some recurrence_state \<Rightarrow>
                              (case check_end_date env store task_id
                                      (rs_config recurrence_state) of
                                 None \<Rightarrow>
                                   \<lparr>rr_status = ''RETRY'', rr_store = store, rr_created = []\<rparr>
                               | Some (store1, should1) \<Rightarrow>
                                   let (store2, should_create) =
                                         check_max_occurrences env store1 task_id
                                           (rs_config recurrence_state) should1
                                   in if should_create
                                      then spawn_next env store2 task_id recurrence_state
                                      else \<lparr>rr_status = ''SUCCESS'', rr_store = store2,
                                            rr_created = []\<rparr>))))"

text \<open>\<open>set_recurrence\<close> (\<open>POST /recurrence\<close>): the initial state, written with a count of 0.\<close>

record SetRecurrenceRequest =
  sr_task_id :: int
  sr_pattern :: RecurrencePattern
  sr_interval :: int
  sr_end_date :: "string option"
  sr_max_occurrences :: "int option"
  sr_task_data :: "(string \<times> json) list"

definition set_recurrence ::
  "recurring_env \<Rightarrow> state_store \<Rightarrow> SetRecurrenceRequest \<Rightarrow> int \<times> state_store" where
  "set_recurrence env store request =
     (let state = \<lparr>rs_config =
                     \<lparr>pattern = sr_pattern request, interval = sr_interval request,
                      end_date = sr_end_date request,
                      max_occurrences = sr_max_occurrences request,
                      occurrences_created = 0\<rparr>,
                   rs_task_data = sr_task_data request,
                   rs_parent_task_id = None\<rparr>;
          (success, store') = save_recurrence_state env store (str_int (sr_task_id request)) state
      in if success then (200, store') else (500, store'))"


text \<open>
  The end conditions of a configuration on a given day, for the statements about the
  handler: the end date is past; the maximum is reached; and an end date the handler
  can read at all (absent, empty, or a date).
\<close>

definition end_date_passed :: "date \<Rightarrow> RecurrenceConfig \<Rightarrow> bool" where
  "end_date_passed today config =
     (case end_date config of
        None \<Rightarrow> False
      | Some s \<Rightarrow> (case fromisoformat s of None \<Rightarrow> False | Some ed \<Rightarrow> date_gt today ed))"

definition max_reached :: "RecurrenceConfig \<Rightarrow> bool" where
  "max_reached config =
     (case max_occurrences config of
        None \<Rightarrow> False
      | Some m \<Rightarrow> occurrences_created config \<ge> m)"

definition end_date_readable :: "RecurrenceConfig \<Rightarrow> bool" where
  "end_date_readable config =
     (case end_date config of
        None \<Rightarrow> True
      | Some s \<Rightarrow> s = [] \<or> fromisoformat s \<noteq> None)"

text \<open>
  A delivery of \<open>task.completed\<close> with \<open>completed = true\<close> for task \<open>task_id\<close>, carrying
  a user id.
\<close>

definition is_completion_of :: "cloud_event \<Rightarrow> int \<Rightarrow> bool" where
  "is_completion_of event task_id =
     (ev_type event = Some ''task.completed''
      \<and> ed_task_id (get_data event) = Some task_id
      \<and> task_id \<noteq> 0
      \<and> truthy_str (ed_user_id (get_data event))
      \<and> ed_completed (get_data event) = Some True)"


section \<open>Notification consumer: \<open>services/notification/main.py\<close>\<close>

text \<open>
  A WebSocket is known by its identity. \<open>active_connections\<close> maps a user id to the set
  of that user's sockets. The sockets whose \<open>send_json\<close> raises are a parameter.
\<close>

type_synonym WebSocket = nat

type_synonym active_connections = "string \<rightharpoonup> WebSocket set"

text \<open>\<open>connect\<close>, after \<open>websocket.accept()\<close> has returned.\<close>

definition connect :: "active_connections \<Rightarrow> WebSocket \<Rightarrow> string \<Rightarrow> active_connections" where
  "connect conns websocket user_id =
     (let conns' = (if user_id \<notin> dom conns then conns(user_id \<mapsto> {}) else conns)
      in case conns' user_id of
           None \<Rightarrow> conns'
         | Some sockets \<Rightarrow> conns'(user_id \<mapsto> insert websocket sockets))"

definition disconnect :: "active_connections \<Rightarrow> WebSocket \<Rightarrow> string \<Rightarrow> active_connections" where
  "disconnect conns websocket user_id =
     (case conns user_id of
        None \<Rightarrow> conns
      | Some sockets \<Rightarrow>
          if sockets - {websocket} = {} then conns(user_id := None)
          else conns(user_id \<mapsto> sockets - {websocket}))"

record send_result =
  sent_conns :: active_connections
  sent_attempted :: "WebSocket set"
  sent_delivered :: "WebSocket set"

text \<open>
  \<open>send_to_user\<close>: \<open>send_json\<close> is called on every socket of the user; the ones that
  raise are collected in \<open>disconnected\<close> and discarded from the user's set afterwards.
\<close>

definition send_to_user ::
  "WebSocket set \<Rightarrow> active_connections \<Rightarrow> string \<Rightarrow> (string \<times> json) list \<Rightarrow> send_result" where
  "send_to_user failing conns user_id message =
     (case conns user_id of
        None \<Rightarrow> \<lparr>sent_conns = conns, sent_attempted = {}, sent_delivered = {}\<rparr>
      | Some sockets \<Rightarrow>
          let disconnected = sockets \<inter> failing
          in \<lparr>sent_conns = conns(user_id \<mapsto> sockets - disconnected),
              sent_attempted = sockets,
              sent_delivered = sockets - disconnected\<rparr>)"

text \<open>
  \<open>broadcast\<close> sends to every key of \<open>list(self.active_connections.keys())\<close>; the list
  of keys, in the order the dict gives them, is a parameter.
\<close>

definition broadcast ::
  "WebSocket set \<Rightarrow> active_connections \<Rightarrow> string list \<Rightarrow> (string \<times> json) list
     \<Rightarrow> active_connections" where
  "broadcast failing conns keys message =
     fold (\<lambda>user_id c. sent_conns (send_to_user failing c user_id message)) keys conns"

text \<open>The registry invariant: every registered user id maps to a non-empty set.\<close>

definition registry_inv :: "active_connections \<Rightarrow> bool" where
  "registry_inv conns = (\<forall>user_id sockets. conns user_id = Some sockets \<longrightarrow> sockets \<noteq> {})"

text \<open>What an f-string prints for an optional string, and JSON for an optional int.\<close>

definition fmt_opt :: "string option \<Rightarrow> string" where
  "fmt_opt v = (case v of None \<Rightarrow> ''None'' | Some s \<Rightarrow> s)"

definition json_int_opt :: "int option \<Rightarrow> json" where
  "json_int_opt v = (case v of None \<Rightarrow> JNull | Some n \<Rightarrow> JInt n)"

definition json_str_opt :: "string option \<Rightarrow> json" where
  "json_str_opt v = (case v of None \<Rightarrow> JNull | Some s \<Rightarrow> JStr s)"

fun join :: "string \<Rightarrow> string list \<Rightarrow> string" where
  "join sep [] = []"
| "join sep [x] = x"
| "join sep (x # y # ys) = x @ sep @ join sep (y # ys)"

definition quoted :: "string \<Rightarrow> string" where
  "quoted s = [CHR 0x27] @ s @ [CHR 0x27]"

text \<open>The type-to-template table of \<open>handle_task_events\<close>; \<open>None\<close> is no notification.\<close>

definition task_notification ::
  "string \<Rightarrow> string \<Rightarrow> event_data \<Rightarrow> (string \<times> json) list option" where
  "task_notification utcnow event_type data =
     (if event_type = ''task.created'' then
        Some [(''type'', JStr ''task.created''),
              (''title'', JStr ''New Task Created''),
              (''message'', JStr (''Task '' @ quoted (fmt_opt (ed_title data))
                                   @ '' has been created'')),
              (''task_id'', json_int_opt (ed_task_id data)),
              (''timestamp'', JStr utcnow)]
      else if event_type = ''task.completed'' then
        Some [(''type'', JStr ''task.completed''),
              (''title'', JStr ''Task Completed''),
              (''message'', JStr (''Task '' @ quoted (fmt_opt (ed_title data))
                                   @ '' has been marked as complete'')),
              (''task_id'', json_int_opt (ed_task_id data)),
              (''timestamp'', JStr utcnow)]
      else if event_type = ''task.uncompleted'' then
        Some [(''type'', JStr ''task.uncompleted''),
              (''title'', JStr ''Task Reopened''),
              (''message'', JStr (''Task '' @ quoted (fmt_opt (ed_title data))
                                   @ '' has been reopened'')),
              (''task_id'', json_int_opt (ed_task_id data)),
              (''timestamp'', JStr utcnow)]
      else if event_type = ''task.deleted'' then
        Some [(''type'', JStr ''task.deleted''),
              (''title'', JStr ''Task Deleted''),
              (''message'', JStr ''A task has been deleted''),
              (''task_id'', json_int_opt (ed_task_id data)),
              (''timestamp'', JStr utcnow)]
      else if event_type = ''task.updated'' then
        (let changes = (case ed_changes data of None \<Rightarrow> [] | Some c \<Rightarrow> c)
         in if changes \<noteq> [] then
              Some [(''type'', JStr ''task.updated''),
                    (''title'', JStr ''Task Updated''),
                    (''message'', JStr (''Task updated: '' @ join '', '' (map fst changes))),
                    (''task_id'', json_int_opt (ed_task_id data)),
                    (''changes'', JObj changes),
                    (''timestamp'', JStr utcnow)]
            else None)
      else None)"

record notify_result =
  nr_status :: string
  nr_conns :: active_connections
  nr_notification :: "(string \<times> json) list option"
  nr_attempted :: "WebSocket set"

definition notification_handle_task_events ::
  "string \<Rightarrow> WebSocket set \<Rightarrow> active_connections \<Rightarrow> cloud_event request_json
     \<Rightarrow> notify_result" where
  "notification_handle_task_events utcnow failing conns request =
     (case request of
        JsonError \<Rightarrow>
          \<lparr>nr_status = ''RETRY'', nr_conns = conns, nr_notification = None, nr_attempted = {}\<rparr>
      | Json event \<Rightarrow>
          let event_type = (case ev_type event of None \<Rightarrow> [] | Some t \<Rightarrow> t);
              data = get_data event
          in (case ed_user_id data of
                None \<Rightarrow>
                  \<lparr>nr_status = ''SKIP'', nr_conns = conns, nr_notification = None,
                   nr_attempted = {}\<rparr>
              | Some user_id \<Rightarrow>
                  if user_id = []
                  then \<lparr>nr_status = ''SKIP'', nr_conns = conns, nr_notification = None,
                        nr_attempted = {}\<rparr>
                  else
                    (case task_notification utcnow event_type data of
                       None \<Rightarrow>
                         \<lparr>nr_status = ''SUCCESS'', nr_conns = conns, nr_notification = None,
                          nr_attempted = {}\<rparr>
                     | Some notification \<Rightarrow>
                         let r = send_to_user failing conns user_id notification
                         in \<lparr>nr_status = ''SUCCESS'', nr_conns = sent_conns r,
                             nr_notification = Some notification,
                             nr_attempted = sent_attempted r\<rparr>)))"

definition notification_handle_reminders ::
  "string \<Rightarrow> WebSocket set \<Rightarrow> active_connections \<Rightarrow> cloud_event request_json
     \<Rightarrow> notify_result" where
  "notification_handle_reminders utcnow failing conns request =
     (case request of
        JsonError \<Rightarrow>
          \<lparr>nr_status = ''RETRY'', nr_conns = conns, nr_notification = None, nr_attempted = {}\<rparr>
      | Json event \<Rightarrow>
          let data = get_data event
          in (case ed_user_id data of
                None \<Rightarrow>
                  \<lparr>nr_status = ''SKIP'', nr_conns = conns, nr_notification = None,
                   nr_attempted = {}\<rparr>
              | Some user_id \<Rightarrow>
                  if user_id = []
                  then \<lparr>nr_status = ''SKIP'', nr_conns = conns, nr_notification = None,
                        nr_attempted = {}\<rparr>
                  else
                    let notification =
                          [(''type'', JStr ''reminder''),
                           (''title'', JStr ''Task Reminder''),
                           (''message'', JStr (''Reminder: '' @ fmt_opt (ed_title data)
                                                @ '' is due soon'')),
                           (''task_id'', json_int_opt (ed_task_id data)),
                           (''due_date'', json_str_opt (ed_due_date data)),
                           (''timestamp'', JStr utcnow)];
                        r = send_to_user failing conns user_id notification
                    in \<lparr>nr_status = ''SUCCESS'', nr_conns = sent_conns r,
                        nr_notification = Some notification,
                        nr_attempted = sent_attempted r\<rparr>))"

definition notification_handle_task_updates ::
  "string \<Rightarrow> WebSocket set \<Rightarrow> active_connections \<Rightarrow> cloud_event request_json
     \<Rightarrow> notify_result" where
  "notification_handle_task_updates utcnow failing conns request =
     (case request of
        JsonError \<Rightarrow>
          \<lparr>nr_status = ''RETRY'', nr_conns = conns, nr_notification = None, nr_attempted = {}\<rparr>
      | Json event \<Rightarrow>
          let data = get_data event
          in (case ed_user_id data of
                None \<Rightarrow>
                  \<lparr>nr_status = ''SKIP'', nr_conns = conns, nr_notification = None,
                   nr_attempted = {}\<rparr>
              | Some user_id \<Rightarrow>
                  if user_id = []
                  then \<lparr>nr_status = ''SKIP'', nr_conns = conns, nr_notification = None,
                        nr_attempted = {}\<rparr>
                  else
                    let sync_message =
                          [(''type'', JStr ''sync''),
                           (''action'', JStr ''refresh''),
                           (''timestamp'', JStr utcnow)];
                        r = send_to_user failing conns user_id sync_message
                    in \<lparr>nr_status = ''SUCCESS'', nr_conns = sent_conns r,
                        nr_notification = Some sync_message,
                        nr_attempted = sent_attempted r\<rparr>))"


section \<open>Audit consumer: \<open>services/audit/main.py\<close>\<close>

text \<open>\<open>needle in haystack\<close> on strings: the needle starts at some position.\<close>

fun contains :: "string \<Rightarrow> string \<Rightarrow> bool" where
  "contains [] needle = (needle = [])"
| "contains (c # cs) needle = (prefix needle (c # cs) \<or> contains cs needle)"

text \<open>
  The row of table \<open>audit_log\<close>. The three JSON columns hold the value that the source
  passes to \<open>json.dumps\<close>; a datetime is held as its ISO text.
\<close>

datatype audit_payload =
    Snapshot event_data
  | Fields "(string \<times> json) list"

record AuditLog =
  al_id :: "nat option"
  al_event_id :: string
  al_event_type :: string
  al_topic :: string
  al_user_id :: "string option"
  al_entity_type :: string
  al_entity_id :: "int option"
  al_action :: string
  al_old_data :: "audit_payload option"
  al_new_data :: "audit_payload option"
  al_event_metadata :: "json option"
  al_source :: string
  al_timestamp :: string

text \<open>The two \<open>if\<close>/\<open>elif\<close> chains of \<open>parse_event_to_audit\<close>, in the source's order.\<close>

definition audit_action :: "string \<Rightarrow> string" where
  "audit_action event_type =
     (if contains event_type ''created'' then ''created''
      else if contains event_type ''updated'' then ''updated''
      else if contains event_type ''deleted'' then ''deleted''
      else if contains event_type ''completed'' then ''completed''
      else if contains event_type ''uncompleted'' then ''uncompleted''
      else ''unknown'')"

definition audit_entity_type :: "string \<Rightarrow> string" where
  "audit_entity_type event_type =
     (if contains event_type ''task'' then ''task''
      else if contains event_type ''reminder'' then ''reminder''
      else if contains event_type ''conversation'' then ''conversation''
      else ''unknown'')"

text \<open>\<open>v.get("old")\<close> for the items of \<open>changes\<close> whose value is a dict.\<close>

fun change_side :: "string \<Rightarrow> (string \<times> json) list \<Rightarrow> (string \<times> json) list" where
  "change_side side [] = []"
| "change_side side ((k, JObj v) # rest) =
     (k, (case dict_get v side of None \<Rightarrow> JNull | Some x \<Rightarrow> x)) # change_side side rest"
| "change_side side ((k, _) # rest) = change_side side rest"

text \<open>\<open>s.replace("Z", "+00:00")\<close>.\<close>

definition replace_Z :: "string \<Rightarrow> string" where
  "replace_Z s = concat (map (\<lambda>c. if c = CHR ''Z'' then ''+00:00'' else [c]) s)"

text \<open>\<open>a or b\<close> on optional ints: \<open>a\<close> when truthy, else \<open>b\<close>.\<close>

definition or_int :: "int option \<Rightarrow> int option \<Rightarrow> int option" where
  "or_int a b = (case a of None \<Rightarrow> b | Some n \<Rightarrow> if n \<noteq> 0 then a else b)"

text \<open>
  What the audit service takes from outside: whether the engine was created at
  startup, whether the commit of an insert goes through, the clock, and
  \<open>datetime.fromisoformat\<close> (\<open>None\<close> is its \<open>ValueError\<close>).
\<close>

record audit_env =
  ae_engine :: bool
  ae_commit_ok :: "AuditLog \<Rightarrow> bool"
  ae_utcnow :: string
  ae_fromisoformat :: "string \<Rightarrow> string option"

text \<open>Python truthiness of a JSON value.\<close>

fun truthy_json :: "json \<Rightarrow> bool" where
  "truthy_json JNull = False"
| "truthy_json (JBool b) = b"
| "truthy_json (JInt n) = (n \<noteq> 0)"
| "truthy_json (JStr s) = (s \<noteq> [])"
| "truthy_json (JList xs) = (xs \<noteq> [])"
| "truthy_json (JObj items) = (items \<noteq> [])"

text \<open>
  The block \<open>Extract changes for update events\<close> of \<open>parse_event_to_audit\<close>, together
  with the \<open>... if old_data else None\<close> of the constructor call: an empty dict is stored
  as \<open>None\<close>.
\<close>

definition audit_snapshots ::
  "string \<Rightarrow> event_data \<Rightarrow> audit_payload option \<times> audit_payload option" where
  "audit_snapshots action data =
     (let (old_data, new_data) =
            (case (action = ''updated'', ed_changes data) of
               (True, Some changes) \<Rightarrow>
                 (Some (Fields (change_side ''old'' changes)),
                  Some (Fields (change_side ''new'' changes)))
             | _ \<Rightarrow>
                 if action = ''created'' then (None, Some (Snapshot data)) else (None, None))
      in (if old_data = Some (Fields []) then None else old_data,
          if new_data = Some (Fields []) \<or> new_data = Some (Snapshot empty_data)
          then None else new_data))"

text \<open>
  The \<open>timestamp\<close> argument: the parsed \<open>time\<close> of the event when it has a non-empty
  one, else the clock; \<open>None\<close> is the exception of a \<open>time\<close> that does not parse.
\<close>

definition audit_timestamp :: "audit_env \<Rightarrow> cloud_event \<Rightarrow> string option" where
  "audit_timestamp env event =
     (case ev_time event of
        None \<Rightarrow> Some (ae_utcnow env)
      | Some t \<Rightarrow> if t = [] then Some (ae_utcnow env) else ae_fromisoformat env (replace_Z t))"

text \<open>\<open>parse_event_to_audit\<close>; \<open>None\<close> is the exception it can raise.\<close>

definition parse_event_to_audit :: "audit_env \<Rightarrow> cloud_event \<Rightarrow> string \<Rightarrow> AuditLog option" where
  "parse_event_to_audit env event topic =
     (let event_type = (case ev_type event of None \<Rightarrow> ''unknown'' | Some t \<Rightarrow> t);
          data = get_data event;
          action = audit_action event_type;
          entity_type = audit_entity_type event_type;
          (old_data, new_data) = audit_snapshots action data;
          metadata = (case ev_metadata event of
                        None \<Rightarrow> None
                      | Some j \<Rightarrow> if truthy_json j then Some j else None)
      in case audit_timestamp env event of
           None \<Rightarrow> None
         | Some ts \<Rightarrow>
             Some \<lparr>al_id = None,
                   al_event_id = (case ev_id event of None \<Rightarrow> [] | Some i \<Rightarrow> i),
                   al_event_type = event_type,
                   al_topic = topic,
                   al_user_id = ed_user_id data,
                   al_entity_type = entity_type,
                   al_entity_id = or_int (ed_task_id data) (ed_entity_id data),
                   al_action = action,
                   al_old_data = old_data,
                   al_new_data = new_data,
                   al_event_metadata = metadata,
                   al_source = (case ev_source event of None \<Rightarrow> ''backend'' | Some src \<Rightarrow> src),
                   al_timestamp = ts\<rparr>)"

text \<open>
  \<open>save_audit_log\<close>: \<open>False\<close> without an engine; otherwise one insert, whose exception
  is caught here and turned into \<open>False\<close>. The table is the list of its rows; the
  primary key is assigned by the insert.
\<close>

definition save_audit_log :: "audit_env \<Rightarrow> AuditLog list \<Rightarrow> AuditLog \<Rightarrow> bool \<times> AuditLog list" where
  "save_audit_log env table audit =
     (if \<not> ae_engine env then (False, table)
      else if ae_commit_ok env audit
      then (True, table @ [audit\<lparr>al_id := Some (Suc (length table))\<rparr>])
      else (False, table))"

text \<open>
  The three delivery endpoints differ in the topic they record. The result of
  \<open>save_audit_log\<close> is awaited and dropped.
\<close>

definition audit_handle ::
  "string \<Rightarrow> audit_env \<Rightarrow> AuditLog list \<Rightarrow> cloud_event request_json \<Rightarrow> string \<times> AuditLog list" where
  "audit_handle topic env table request =
     (case request of
        JsonError \<Rightarrow> (''RETRY'', table)
      | Json event \<Rightarrow>
          (case parse_event_to_audit env event topic of
             None \<Rightarrow> (''RETRY'', table)
           | Some audit \<Rightarrow>
               let (saved, table') = save_audit_log env table audit
               in (''SUCCESS'', table')))"

definition audit_handle_task_events ::
  "audit_env \<Rightarrow> AuditLog list \<Rightarrow> cloud_event request_json \<Rightarrow> string \<times> AuditLog list" where
  "audit_handle_task_events = audit_handle ''task-events''"

definition audit_handle_reminders ::
  "audit_env \<Rightarrow> AuditLog list \<Rightarrow> cloud_event request_json \<Rightarrow> string \<times> AuditLog list" where
  "audit_handle_reminders = audit_handle ''reminders''"

definition audit_handle_task_updates ::
  "audit_env \<Rightarrow> AuditLog list \<Rightarrow> cloud_event request_json \<Rightarrow> string \<times> AuditLog list" where
  "audit_handle_task_updates = audit_handle ''task-updates''"


section \<open>Concrete deliveries used to exercise the model\<close>

text \<open>
  Recurrence for task 42: daily, every 1, no end, template Standup due 2026-02-01;
  then a \<open>task.completed\<close> event for task 42 by user \<open>u1\<close>.
\<close>

definition standup_request :: SetRecurrenceRequest where
  "standup_request =
     \<lparr>sr_task_id = 42, sr_pattern = DAILY, sr_interval = 1, sr_end_date = None,
      sr_max_occurrences = None,
      sr_task_data = [(''title'', JStr ''Standup''), (''priority'', JStr ''medium''),
                      (''category'', JStr ''work''), (''due_date'', JStr ''2026-02-01'')]\<rparr>"

definition completed_event :: "int \<Rightarrow> string \<Rightarrow> cloud_event" where
  "completed_event task_id user_id =
     \<lparr>ev_id = Some ''evt-1'', ev_type = Some ''task.completed'',
      ev_source = Some ''todo-backend'', ev_time = None, ev_metadata = None,
      ev_data = Some (empty_data\<lparr>ed_task_id := Some task_id, ed_user_id := Some user_id,
                                  ed_title := Some ''Standup'', ed_completed := Some True\<rparr>)\<rparr>"

text \<open>A backend that creates the task under the given id, and one that answers 500.\<close>

definition backend_creates :: "int \<Rightarrow> create_request \<Rightarrow> backend_reply" where
  "backend_creates new_id req =
     Reply 201 (Some [(''id'', JInt new_id), (''title'', cr_title req),
                      (''due_date'', JStr (cr_due_date req))])"

definition backend_fails :: "create_request \<Rightarrow> backend_reply" where
  "backend_fails req = Reply 500 None"

definition env_on :: "date \<Rightarrow> (create_request \<Rightarrow> backend_reply) \<Rightarrow> recurring_env" where
  "env_on today backend =
     \<lparr>re_today = today, re_get_ok = True, re_save_ok = True, re_delete_ok = True,
      re_backend = backend, re_repr = (\<lambda>v. ''[...]'')\<rparr>"

definition feb_first :: date where
  "feb_first = \<lparr>d_year = 2026, d_month = 2, d_day = 1\<rparr>"

definition standup_store :: state_store where
  "standup_store = snd (set_recurrence (env_on feb_first backend_fails) Map.empty standup_request)"

definition weekly_state :: recurrence_state where
  "weekly_state =
     \<lparr>rs_config = \<lparr>pattern = WEEKLY, interval = 1, end_date = None,
                   max_occurrences = None, occurrences_created = 0\<rparr>,
      rs_task_data = [(''title'', JStr ''Review''), (''due_date'', JStr ''2026-01-01'')],
      rs_parent_task_id = None\<rparr>"

text \<open>A state that has used up its single occurrence.\<close>

definition exhausted_state :: recurrence_state where
  "exhausted_state =
     \<lparr>rs_config = \<lparr>pattern = WEEKLY, interval = 1, end_date = None,
                   max_occurrences = Some 1, occurrences_created = 1\<rparr>,
      rs_task_data = [(''title'', JStr ''Review''), (''due_date'', JStr ''2026-01-01'')],
      rs_parent_task_id = Some 7\<rparr>"

text \<open>The same state with an end date that is not a date.\<close>

definition unreadable_end_state :: recurrence_state where
  "unreadable_end_state =
     exhausted_state\<lparr>rs_config := (rs_config exhausted_state)\<lparr>end_date := Some ''soon''\<rparr>\<rparr>"

text \<open>
  Deliveries for the other two consumers: the reopening of task 42, a completion whose
  payload carries no user id, and an event of a type no consumer knows. The audit
  environments have an engine; their \<open>fromisoformat\<close> accepts every text.
\<close>

definition uncompleted_event :: "int \<Rightarrow> string \<Rightarrow> cloud_event" where
  "uncompleted_event task_id user_id =
     \<lparr>ev_id = Some ''evt-2'', ev_type = Some ''task.uncompleted'',
      ev_source = Some ''todo-backend'', ev_time = None, ev_metadata = None,
      ev_data = Some (empty_data\<lparr>ed_task_id := Some task_id, ed_user_id := Some user_id,
                                  ed_title := Some ''Standup'', ed_completed := Some False\<rparr>)\<rparr>"

definition anonymous_event :: cloud_event where
  "anonymous_event =
     \<lparr>ev_id = Some ''evt-3'', ev_type = Some ''task.completed'',
      ev_source = Some ''todo-backend'', ev_time = None, ev_metadata = None,
      ev_data = Some (empty_data\<lparr>ed_task_id := Some 42, ed_title := Some ''Standup'',
                                  ed_completed := Some True\<rparr>)\<rparr>"

definition archived_event :: cloud_event where
  "archived_event =
     \<lparr>ev_id = Some ''evt-4'', ev_type = Some ''task.archived'',
      ev_source = Some ''todo-backend'', ev_time = None, ev_metadata = None,
      ev_data = Some (empty_data\<lparr>ed_task_id := Some 42, ed_user_id := Some ''u1''\<rparr>)\<rparr>"

definition audit_env_with :: "bool \<Rightarrow> audit_env" where
  "audit_env_with commit_ok =
     \<lparr>ae_engine = True, ae_commit_ok = (\<lambda>audit. commit_ok),
      ae_utcnow = ''2026-02-01T09:00:00'', ae_fromisoformat = Some\<rparr>"

definition two_sockets :: active_connections where
  "two_sockets = [''u1'' \<mapsto> {1, 2}]"

section \<open>Verification: envelope round trip\<close>

text \<open>
  C7. For every envelope, serialising it with \<open>to_dict\<close> (\<open>model_dump\<close>) and constructing
  an envelope from the resulting dict succeeds and reproduces the envelope, whatever
  the default factories would have produced; in particular the type, the data and the
  id are the same.
\<close>

theorem to_dict_roundtrip:
  "parse_TaskEvent fresh_uuid utcnow (to_dict e) = Inr e
   \<and> (\<exists>e'. parse_TaskEvent fresh_uuid utcnow (to_dict e) = Inr e'
          \<and> te_type e' = te_type e \<and> te_data e' = te_data e \<and> te_id e' = te_id e)"
  by (simp add: parse_TaskEvent_def str_field_def dict_field_def to_dict_def dict_get_def)

theorem to_dict_roundtrip_witness:
  "parse_TaskEvent ''other-id'' ''2026-01-01T00:00:00Z''
     (to_dict (TaskCompletedEvent_from_task ''id-1'' ''2026-02-01T09:00:00Z'' 42 ''u1''
                 ''Standup'' True))
     = Inr (TaskCompletedEvent_from_task ''id-1'' ''2026-02-01T09:00:00Z'' 42 ''u1''
              ''Standup'' True)"
  using to_dict_roundtrip
    [of "''other-id''" "''2026-01-01T00:00:00Z''"
        "TaskCompletedEvent_from_task ''id-1'' ''2026-02-01T09:00:00Z'' 42 ''u1'' ''Standup'' True"]
  by simp


section \<open>Verification: publisher\<close>

text \<open>
  C8. For every topic, envelope, retry count and network, \<open>publish\<close> on a publisher
  whose \<open>enabled\<close> flag is false returns \<open>True\<close> without raising, and the list of HTTP
  requests issued is the one it started with: no request is made.
\<close>

theorem publish_disabled_is_noop:
  assumes "\<not> enabled p"
  shows "publish p net topic event retry_count sent = (Inr True, sent)"
  using assms by (simp add: publish_def)

theorem publish_disabled_is_noop_witness:
  "publish \<lparr>dapr_host = ''localhost'', dapr_port = 3500, pubsub_name = ''pubsub-kafka'',
            enabled = False\<rparr>
     (\<lambda>attempt. ConnectError) TASK_EVENTS
     (TaskCompletedEvent_from_task ''id-1'' ''2026-02-01T09:00:00Z'' 42 ''u1'' ''Standup'' True)
     3 []
   = (Inr True, [])"
  by (rule publish_disabled_is_noop) simp

text \<open>The loop over \<open>range(retry_count)\<close> when every attempt fails: one request per
  attempt, then \<open>False\<close>. The early \<open>return False\<close> of the connection-error handler
  can only fire on the last attempt.\<close>

lemma publish_loop_all_fail:
  assumes "\<forall>a \<in> set [i ..< n]. attempt_fails (net a)" and "int n = rc \<or> n = 0"
  shows "publish_loop net req rc [i ..< n] sent = (Inr False, sent @ replicate (n - i) req)"
  using assms
proof (induction "n - i" arbitrary: i sent)
  case 0
  then show ?case by simp
next
  case (Suc d)
  then have lt: "i < n" by simp
  then have upt: "[i ..< n] = i # [Suc i ..< n]" by (simp add: upt_conv_Cons)
  have fa: "attempt_fails (net i)" using Suc.prems(1) lt by simp
  have fr: "\<forall>a \<in> set [Suc i ..< n]. attempt_fails (net a)" using Suc.prems(1) by simp
  have d: "d = n - Suc i" using Suc.hyps(2) by simp
  have ih: "publish_loop net req rc [Suc i ..< n] (sent @ [req])
            = (Inr False, (sent @ [req]) @ replicate (n - Suc i) req)"
    using Suc.hyps(1) [OF d fr Suc.prems(2)] .
  have rep: "(sent @ [req]) @ replicate (n - Suc i) req = sent @ replicate (n - i) req"
    using lt by (simp add: Suc_diff_Suc replicate_app_Cons_same flip: replicate_Suc)
  have n: "int n = rc" using Suc.prems(2) lt by auto
  show ?case
  proof (cases "net i")
    case (Status code)
    with fa ih rep upt show ?thesis by simp
  next
    case ConnectError
    show ?thesis
    proof (cases "int i = rc - 1")
      case True
      then have "n = Suc i" using n by simp
      then show ?thesis using ConnectError True upt by simp
    next
      case False
      then show ?thesis using ConnectError ih rep upt by simp
    qed
  next
    case TimeoutException
    with ih rep upt show ?thesis by simp
  next
    case OtherException
    with ih rep upt show ?thesis by simp
  next
    case Cancelled
    with fa show ?thesis by simp
  qed
qed

text \<open>
  C9. For every topic and envelope, on an enabled publisher, if every attempt within
  \<open>range(retry_count)\<close> fails (connection error, timeout, another exception, or a status
  other than 200 and 204), \<open>publish\<close> returns \<open>False\<close> without raising, after exactly
  \<open>retry_count\<close> requests (none for a count below 1), hence at most \<open>retry_count\<close>. The
  per-topic wrappers call it with the default count 3.
\<close>

theorem publish_all_attempts_fail:
  assumes "enabled p" and "\<forall>a < nat retry_count. attempt_fails (net a)"
  shows "publish p net topic event retry_count sent
           = (Inr False,
              sent @ replicate (nat retry_count)
                \<lparr>post_url = publish_url p @ ''/'' @ Topics_value topic,
                 post_content_type = ''application/cloudevents+json'',
                 post_json = to_dict event\<rparr>)
         \<and> fst (publish p net topic event retry_count sent) = Inr False
         \<and> length (snd (publish p net topic event retry_count sent))
             \<le> length sent + nat retry_count"
proof -
  have a: "\<forall>a \<in> set [0 ..< nat retry_count]. attempt_fails (net a)" using assms(2) by simp
  have b: "int (nat retry_count) = retry_count \<or> nat retry_count = 0" by auto
  have e: "publish p net topic event retry_count sent
           = (Inr False,
              sent @ replicate (nat retry_count)
                \<lparr>post_url = publish_url p @ ''/'' @ Topics_value topic,
                 post_content_type = ''application/cloudevents+json'',
                 post_json = to_dict event\<rparr>)"
    using publish_loop_all_fail [OF a b] assms(1) by (simp add: publish_def)
  show ?thesis
    unfolding e by simp
qed

theorem publish_all_attempts_fail_witness:
  "fst (publish \<lparr>dapr_host = ''localhost'', dapr_port = 3500, pubsub_name = ''pubsub-kafka'',
                 enabled = True\<rparr>
          (\<lambda>attempt. if attempt = 0 then TimeoutException
                      else if attempt = 1 then Status 500 else ConnectError)
          TASK_EVENTS
          (TaskCompletedEvent_from_task ''id-1'' ''2026-02-01T09:00:00Z'' 42 ''u1'' ''Standup''
             True)
          3 [])
     = Inr False
   \<and> length (snd (publish \<lparr>dapr_host = ''localhost'', dapr_port = 3500,
                           pubsub_name = ''pubsub-kafka'', enabled = True\<rparr>
          (\<lambda>attempt. if attempt = 0 then TimeoutException
                      else if attempt = 1 then Status 500 else ConnectError)
          TASK_EVENTS
          (TaskCompletedEvent_from_task ''id-1'' ''2026-02-01T09:00:00Z'' 42 ''u1'' ''Standup''
             True)
          3 []))
     = 3"
proof -
  have en: "enabled \<lparr>dapr_host = ''localhost'', dapr_port = 3500,
                     pubsub_name = ''pubsub-kafka'', enabled = True\<rparr>" by simp
  have fails: "\<forall>a < nat 3. attempt_fails
                 ((\<lambda>attempt. if attempt = 0 then TimeoutException
                              else if attempt = 1 then Status 500 else ConnectError) a)"
    by simp
  show ?thesis
    using publish_all_attempts_fail [OF en fails, of TASK_EVENTS
        "TaskCompletedEvent_from_task ''id-1'' ''2026-02-01T09:00:00Z'' 42 ''u1'' ''Standup'' True"
        "[]"]
    by simp
qed

section \<open>Verification: recurrence consumer\<close>

subsection \<open>State-store keys are distinct for distinct task ids\<close>

lemma digit_char_digit: "digit_char n \<in> set ''0123456789''"
  unfolding digit_char_def by (rule nth_mem) simp

lemma lt10_cases:
  "(k::nat) < 10 \<Longrightarrow> k = 0 \<or> k = 1 \<or> k = 2 \<or> k = 3 \<or> k = 4 \<or> k = 5 \<or> k = 6 \<or> k = 7 \<or> k = 8 \<or> k = 9"
  by presburger

lemma digit_val_digit_char: "digit_val (digit_char n) = Some (int (n mod 10))"
proof -
  have "n mod 10 < 10" by simp
  from lt10_cases [OF this] show ?thesis
    by (elim disjE) (simp_all add: digit_char_def digit_val_def)
qed

lemma digit_char_inj:
  assumes "digit_char a = digit_char b" shows "a mod 10 = b mod 10"
proof -
  have "digit_val (digit_char a) = digit_val (digit_char b)" using assms by simp
  then show ?thesis by (simp add: digit_val_digit_char)
qed

lemma str_nat_nonempty: "str_nat n \<noteq> []"
  by (subst str_nat.simps) simp

lemma str_nat_digits: "set (str_nat n) \<subseteq> set ''0123456789''"
proof (induction n rule: str_nat.induct)
  case (1 n)
  show ?case
  proof (cases "n < 10")
    case True
    then have "str_nat n = [digit_char n]" by (subst str_nat.simps) simp
    then show ?thesis using digit_char_digit [of n] by simp
  next
    case False
    then have "str_nat n = str_nat (n div 10) @ [digit_char n]" by (subst str_nat.simps) simp
    then show ?thesis using "1.IH" [OF False] digit_char_digit [of n] by simp
  qed
qed

lemma str_nat_small: "n < 10 \<Longrightarrow> str_nat n = [digit_char n]"
  by (subst str_nat.simps) simp

lemma str_nat_big: "\<not> n < 10 \<Longrightarrow> str_nat n = str_nat (n div 10) @ [digit_char n]"
  by (subst str_nat.simps) simp

lemma str_nat_inj: "str_nat a = str_nat b \<Longrightarrow> a = b"
proof (induction a arbitrary: b rule: str_nat.induct)
  case (1 a)
  note eq = \<open>str_nat a = str_nat b\<close>
  show ?case
  proof (cases "a < 10")
    case a: True
    show ?thesis
    proof (cases "b < 10")
      case True
      from eq have "digit_char a = digit_char b"
        unfolding str_nat_small [OF a] str_nat_small [OF True] by simp
      then have "a mod 10 = b mod 10" by (rule digit_char_inj)
      with a True show ?thesis by simp
    next
      case False
      from eq have "[digit_char a] = str_nat (b div 10) @ [digit_char b]"
        unfolding str_nat_small [OF a] str_nat_big [OF False] .
      then have "str_nat (b div 10) = []" by simp
      with str_nat_nonempty show ?thesis by blast
    qed
  next
    case a: False
    show ?thesis
    proof (cases "b < 10")
      case True
      from eq have "str_nat (a div 10) @ [digit_char a] = [digit_char b]"
        unfolding str_nat_big [OF a] str_nat_small [OF True] .
      then have "str_nat (a div 10) = []" by simp
      with str_nat_nonempty show ?thesis by blast
    next
      case False
      from eq have "str_nat (a div 10) @ [digit_char a] = str_nat (b div 10) @ [digit_char b]"
        unfolding str_nat_big [OF a] str_nat_big [OF False] .
      then have h: "str_nat (a div 10) = str_nat (b div 10)"
        and d: "digit_char a = digit_char b" by simp_all
      from "1.IH" [OF a h] have "a div 10 = b div 10" .
      moreover from d have "a mod 10 = b mod 10" by (rule digit_char_inj)
      ultimately show ?thesis by (metis div_mult_mod_eq)
    qed
  qed
qed

lemma str_int_inj: "str_int a = str_int b \<Longrightarrow> a = b"
proof -
  assume e: "str_int a = str_int b"
  have nd: "\<And>n. hd (str_nat n) \<noteq> CHR ''-''"
  proof -
    fix n
    have "hd (str_nat n) \<in> set (str_nat n)" using str_nat_nonempty by simp
    with str_nat_digits [of n] have "hd (str_nat n) \<in> set ''0123456789''" by blast
    then show "hd (str_nat n) \<noteq> CHR ''-''" by auto
  qed
  show "a = b"
  proof (cases "a < 0")
    case a: True
    show ?thesis
    proof (cases "b < 0")
      case True
      with a e have "str_nat (nat (- a)) = str_nat (nat (- b))" by (simp add: str_int_def)
      then have "nat (- a) = nat (- b)" by (rule str_nat_inj)
      with a True show ?thesis by simp
    next
      case False
      with a e have "CHR ''-'' # str_nat (nat (- a)) = str_nat (nat b)" by (simp add: str_int_def)
      then have "hd (str_nat (nat b)) = CHR ''-''" by (metis list.sel(1))
      with nd show ?thesis by blast
    qed
  next
    case a: False
    show ?thesis
    proof (cases "b < 0")
      case True
      with a e have "str_nat (nat a) = CHR ''-'' # str_nat (nat (- b))" by (simp add: str_int_def)
      then have "hd (str_nat (nat a)) = CHR ''-''" by (metis list.sel(1))
      with nd show ?thesis by blast
    next
      case False
      with a e have "str_nat (nat a) = str_nat (nat b)" by (simp add: str_int_def)
      then have "nat a = nat b" by (rule str_nat_inj)
      with a False show ?thesis by simp
    qed
  qed
qed

lemma str_int_not_None: "str_int n \<noteq> ''None''"
proof
  assume e: "str_int n = ''None''"
  show False
  proof (cases "n < 0")
    case True
    with e show False by (simp add: str_int_def)
  next
    case False
    with e have "str_nat (nat n) = ''None''" by (simp add: str_int_def)
    then have "CHR ''N'' \<in> set (str_nat (nat n))" by simp
    with str_nat_digits [of "nat n"] show False by auto
  qed
qed

lemma state_key_inj: "state_key a = state_key b \<Longrightarrow> a = b"
  using str_int_not_None
  by (cases a; cases b) (auto simp: state_key_def key_for_def dest: str_int_inj)

subsection \<open>Evaluating the model on concrete deliveries\<close>

lemmas date_eval =
  date_add_days_def toordinal_def days_before_year_def days_before_month_def is_leap_def
  MAXORDINAL_def fromordinal_def month_and_day_def isoformat_def zero_pad_def str_nat.simps digit_char_def
  Let_def fromisoformat_def digit_val_def valid_date_def days_in_month_def
  date_add_relativedelta_def relativedelta_fix_def date_gt_def

lemmas recurring_eval =
  recurring_handle_task_events_def spawn_next_def check_end_date_def
  check_max_occurrences_def get_recurrence_state_def save_recurrence_state_def
  delete_recurrence_state_def create_next_task_def current_due_of_def
  dict_get_default_def dict_get_def key_for_def state_key_def str_int_def get_data_def
  truthy_str_def empty_data_def set_recurrence_def next_task_request_def

lemmas delivery_eval =
  standup_request_def completed_event_def backend_creates_def backend_fails_def env_on_def
  feb_first_def standup_store_def exhausted_state_def weekly_state_def
  unreadable_end_state_def

lemma standup_store_42:
  "standup_store (state_key (Some 42))
     = Some \<lparr>rs_config = \<lparr>pattern = DAILY, interval = 1, end_date = None,
                           max_occurrences = None, occurrences_created = 0\<rparr>,
             rs_task_data = [(''title'', JStr ''Standup''), (''priority'', JStr ''medium''),
                             (''category'', JStr ''work''), (''due_date'', JStr ''2026-02-01'')],
             rs_parent_task_id = None\<rparr>"
  by (simp add: recurring_eval delivery_eval str_nat.simps digit_char_def)

lemma completed_event_is_completion: "tid \<noteq> 0 \<Longrightarrow> is_completion_of (completed_event tid ''u1'') tid"
  by (simp add: is_completion_of_def completed_event_def get_data_def empty_data_def
      truthy_str_def)

subsection \<open>The path of a completion event to the spawn\<close>

lemma check_end_date_open:
  assumes "end_date_readable config" "\<not> end_date_passed (re_today env) config"
  shows "check_end_date env store task_id config = Some (store, True)"
  using assms
  by (auto simp: check_end_date_def end_date_readable_def end_date_passed_def split: option.splits)

lemma check_max_open:
  assumes "\<not> max_reached config"
  shows "check_max_occurrences env store task_id config b = (store, b)"
  using assms
  by (auto simp: check_max_occurrences_def max_reached_def split: option.splits)

lemma handler_reaches_spawn:
  assumes ev: "is_completion_of event task_id"
    and get: "re_get_ok env" "store (state_key (Some task_id)) = Some rs"
    and open_end: "end_date_readable (rs_config rs)" "\<not> end_date_passed (re_today env) (rs_config rs)"
    and open_max: "\<not> max_reached (rs_config rs)"
  shows "recurring_handle_task_events env store (Json event) = spawn_next env store task_id rs"
proof -
  have ty: "ev_type event = Some ''task.completed''"
    and tid: "ed_task_id (get_data event) = Some task_id" "task_id \<noteq> 0"
    and uid: "truthy_str (ed_user_id (get_data event))"
    and cmpl: "ed_completed (get_data event) = Some True"
    using ev by (simp_all add: is_completion_of_def)
  have g: "get_recurrence_state env store task_id = Some rs"
    using get by (simp add: get_recurrence_state_def)
  show ?thesis
    unfolding recurring_handle_task_events_def
    by (simp add: ty tid uid cmpl g check_end_date_open [OF open_end] check_max_open [OF open_max])
qed

lemma dict_get_dict_set: "dict_get (dict_set d k v) k = Some v"
  by (induction d) (auto simp: dict_get_def)

lemma new_task_key_int:
  "dict_get new_task ''id'' = Some (JInt n) \<Longrightarrow> new_task_key env new_task = state_key (Some n)"
  by (simp add: new_task_key_def state_key_def)

lemma spawn_created:
  assumes due: "current_due_of env (rs_task_data rs) = Some current_due"
    and nxt: "calculate_next_due_date current_due (pattern (rs_config rs)) (interval (rs_config rs)) = Some next_due"
    and created: "re_backend env (next_task_request (rs_task_data rs) next_due) = Reply 201 (Some new_task)"
                 "new_task \<noteq> []"
    and save: "re_save_ok env"
  shows "spawn_next env store task_id rs =
           \<lparr>rr_status = ''SUCCESS'',
            rr_store = store(new_task_key env new_task \<mapsto>
               \<lparr>rs_config = (rs_config rs)\<lparr>occurrences_created := occurrences_created (rs_config rs) + 1\<rparr>,
                rs_task_data = dict_set (rs_task_data rs) ''due_date'' (JStr (isoformat next_due)),
                rs_parent_task_id = Some task_id\<rparr>),
            rr_created = [next_task_request (rs_task_data rs) next_due]\<rparr>"
  unfolding spawn_next_def
  by (simp add: Let_def due nxt created save create_next_task_def save_recurrence_state_def
      new_task_key_def)

lemma spawn_failed:
  assumes due: "current_due_of env (rs_task_data rs) = Some current_due"
    and nxt: "calculate_next_due_date current_due (pattern (rs_config rs)) (interval (rs_config rs)) = Some next_due"
    and failed: "re_backend env (next_task_request (rs_task_data rs) next_due) = NoReply
        \<or> (\<exists>status body. re_backend env (next_task_request (rs_task_data rs) next_due) = Reply status body \<and> status \<noteq> 201)"
  shows "spawn_next env store task_id rs =
           \<lparr>rr_status = ''SUCCESS'', rr_store = store,
            rr_created = [next_task_request (rs_task_data rs) next_due]\<rparr>"
proof -
  have "create_next_task env (next_task_request (rs_task_data rs) next_due) = None"
    using failed by (auto simp: create_next_task_def)
  then show ?thesis
    unfolding spawn_next_def by (simp add: Let_def due nxt)
qed



text \<open>
  C1, as stated, fails: the handler never deletes on a spawn. With recurrence set for
  task 42 (daily, template Standup due 2026-02-01) and a backend that creates task 43,
  the completion of task 42 is answered \<open>SUCCESS\<close>, one task due 2026-02-02 is requested,
  state is written under task 43, and the state under task 42 is still there.
\<close>

theorem spawn_keeps_old_state_counterexample:
  "rr_status (recurring_handle_task_events (env_on feb_first (backend_creates 43))
                standup_store (Json (completed_event 42 ''u1''))) = ''SUCCESS''
   \<and> map cr_due_date
         (rr_created (recurring_handle_task_events (env_on feb_first (backend_creates 43))
                        standup_store (Json (completed_event 42 ''u1'')))) = [''2026-02-02'']
   \<and> rr_store (recurring_handle_task_events (env_on feb_first (backend_creates 43))
                  standup_store (Json (completed_event 42 ''u1''))) (state_key (Some 43))
       \<noteq> None
   \<and> rr_store (recurring_handle_task_events (env_on feb_first (backend_creates 43))
                  standup_store (Json (completed_event 42 ''u1''))) (state_key (Some 42))
       \<noteq> None"
  by (simp add: recurring_eval delivery_eval date_eval)

text \<open>
  C1, amended. For every delivery of a \<open>task.completed\<close> event (completed, with task and
  user id) for a task whose recurrence state is read, has a readable end date and no
  end condition holding, and whose next due date is computed: if the backend answers
  the creation request with 201 and a non-empty JSON object and the state store accepts
  the write, the handler answers \<open>SUCCESS\<close> after that one request, and afterwards the
  store holds, under the key of the id the backend returned (\<open>recurrence-\<close> and the id as
  Python prints it), a state with \<open>occurrences_created\<close> one higher, the same pattern,
  interval and end conditions, the template's due date set to the computed next date,
  and \<open>parent_task_id\<close> the completed task. No other key changes: the state under the
  completed task's key stays as it was whenever the new key differs from it, and so
  whenever the returned id is an integer other than the completed task's id.
\<close>

theorem spawn_rekeys_without_delete:
  assumes ev: "is_completion_of event task_id"
    and get: "re_get_ok env" "store (state_key (Some task_id)) = Some rs"
    and open_end: "end_date_readable (rs_config rs)" "\<not> end_date_passed (re_today env) (rs_config rs)"
    and open_max: "\<not> max_reached (rs_config rs)"
    and due: "current_due_of env (rs_task_data rs) = Some current_due"
    and nxt: "calculate_next_due_date current_due (pattern (rs_config rs)) (interval (rs_config rs))
                = Some next_due"
    and created: "re_backend env (next_task_request (rs_task_data rs) next_due)
                    = Reply 201 (Some new_task)" "new_task \<noteq> []"
    and save: "re_save_ok env"
    and r: "r = recurring_handle_task_events env store (Json event)"
  shows "rr_status r = ''SUCCESS''
     \<and> rr_created r = [next_task_request (rs_task_data rs) next_due]
     \<and> (\<exists>ns. rr_store r (new_task_key env new_task) = Some ns
            \<and> occurrences_created (rs_config ns) = occurrences_created (rs_config rs) + 1
            \<and> pattern (rs_config ns) = pattern (rs_config rs)
            \<and> interval (rs_config ns) = interval (rs_config rs)
            \<and> end_date (rs_config ns) = end_date (rs_config rs)
            \<and> max_occurrences (rs_config ns) = max_occurrences (rs_config rs)
            \<and> dict_get (rs_task_data ns) ''due_date'' = Some (JStr (isoformat next_due))
            \<and> rs_parent_task_id ns = Some task_id)
     \<and> (\<forall>k. k \<noteq> new_task_key env new_task \<longrightarrow> rr_store r k = store k)
     \<and> (new_task_key env new_task \<noteq> state_key (Some task_id)
          \<longrightarrow> rr_store r (state_key (Some task_id)) = Some rs)
     \<and> (\<forall>new_id. dict_get new_task ''id'' = Some (JInt new_id)
          \<longrightarrow> new_task_key env new_task = state_key (Some new_id)
              \<and> (new_id \<noteq> task_id \<longrightarrow> rr_store r (state_key (Some task_id)) = Some rs))"
proof -
  have eq: "r = \<lparr>rr_status = ''SUCCESS'',
            rr_store = store(new_task_key env new_task \<mapsto>
               \<lparr>rs_config = (rs_config rs)\<lparr>occurrences_created := occurrences_created (rs_config rs) + 1\<rparr>,
                rs_task_data = dict_set (rs_task_data rs) ''due_date'' (JStr (isoformat next_due)),
                rs_parent_task_id = Some task_id\<rparr>),
            rr_created = [next_task_request (rs_task_data rs) next_due]\<rparr>"
    unfolding r handler_reaches_spawn [where store = store, OF ev get open_end open_max]
    by (rule spawn_created [OF due nxt created save])
  have keys: "new_task_key env new_task \<noteq> state_key (Some task_id)"
    if "dict_get new_task ''id'' = Some (JInt new_id)" "new_id \<noteq> task_id" for new_id
  proof
    assume "new_task_key env new_task = state_key (Some task_id)"
    then have "state_key (Some new_id) = state_key (Some task_id)"
      using that(1) by (simp add: new_task_key_int)
    then have "Some new_id = Some task_id" by (rule state_key_inj)
    with that(2) show False by simp
  qed
  have a: "rr_status r = ''SUCCESS''"
    and b: "rr_created r = [next_task_request (rs_task_data rs) next_due]"
    unfolding eq by simp_all
  have c: "\<exists>ns. rr_store r (new_task_key env new_task) = Some ns
            \<and> occurrences_created (rs_config ns) = occurrences_created (rs_config rs) + 1
            \<and> pattern (rs_config ns) = pattern (rs_config rs)
            \<and> interval (rs_config ns) = interval (rs_config rs)
            \<and> end_date (rs_config ns) = end_date (rs_config rs)
            \<and> max_occurrences (rs_config ns) = max_occurrences (rs_config rs)
            \<and> dict_get (rs_task_data ns) ''due_date'' = Some (JStr (isoformat next_due))
            \<and> rs_parent_task_id ns = Some task_id"
    unfolding eq by (simp add: dict_get_dict_set)
  have d: "\<forall>k. k \<noteq> new_task_key env new_task \<longrightarrow> rr_store r k = store k"
    unfolding eq by simp
  have e: "new_task_key env new_task \<noteq> state_key (Some task_id)
          \<longrightarrow> rr_store r (state_key (Some task_id)) = Some rs"
    using d get(2) by metis
  have f: "\<forall>new_id. dict_get new_task ''id'' = Some (JInt new_id)
          \<longrightarrow> new_task_key env new_task = state_key (Some new_id)
              \<and> (new_id \<noteq> task_id \<longrightarrow> rr_store r (state_key (Some task_id)) = Some rs)"
  proof (intro allI impI conjI)
    fix new_id
    assume i: "dict_get new_task ''id'' = Some (JInt new_id)"
    show "new_task_key env new_task = state_key (Some new_id)"
      using i by (rule new_task_key_int)
    assume "new_id \<noteq> task_id"
    with i have "new_task_key env new_task \<noteq> state_key (Some task_id)" by (rule keys)
    with e show "rr_store r (state_key (Some task_id)) = Some rs" by simp
  qed
  show ?thesis
    by (intro conjI) (rule a b c d e f)+
qed

theorem spawn_rekeys_without_delete_witness:
  "rr_status (recurring_handle_task_events (env_on feb_first (backend_creates 43))
                standup_store (Json (completed_event 42 ''u1''))) = ''SUCCESS''
   \<and> (\<exists>ns. rr_store (recurring_handle_task_events (env_on feb_first (backend_creates 43))
                        standup_store (Json (completed_event 42 ''u1''))) (state_key (Some 43))
               = Some ns
            \<and> occurrences_created (rs_config ns) = 1
            \<and> dict_get (rs_task_data ns) ''due_date'' = Some (JStr ''2026-02-02'')
            \<and> rs_parent_task_id ns = Some 42)
   \<and> rr_store (recurring_handle_task_events (env_on feb_first (backend_creates 43))
                  standup_store (Json (completed_event 42 ''u1''))) (state_key (Some 42))
       = standup_store (state_key (Some 42))"
proof -
  let ?env = "env_on feb_first (backend_creates 43)"
  let ?rs = "\<lparr>rs_config = \<lparr>pattern = DAILY, interval = 1, end_date = None,
                            max_occurrences = None, occurrences_created = 0\<rparr>,
              rs_task_data = [(''title'', JStr ''Standup''), (''priority'', JStr ''medium''),
                              (''category'', JStr ''work''), (''due_date'', JStr ''2026-02-01'')],
              rs_parent_task_id = None\<rparr>"
  let ?due = "\<lparr>d_year = 2026, d_month = 2, d_day = 1\<rparr>"
  let ?next = "\<lparr>d_year = 2026, d_month = 2, d_day = 2\<rparr>"
  let ?new = "[(''id'', JInt 43), (''title'', JStr ''Standup''),
               (''due_date'', JStr ''2026-02-02'')]"
  have ev: "is_completion_of (completed_event 42 ''u1'') 42"
    by (rule completed_event_is_completion) simp
  have get: "re_get_ok ?env" "standup_store (state_key (Some 42)) = Some ?rs"
    by (simp_all add: env_on_def standup_store_42)
  have open_end: "end_date_readable (rs_config ?rs)"
      "\<not> end_date_passed (re_today ?env) (rs_config ?rs)"
    by (simp_all add: end_date_readable_def end_date_passed_def)
  have open_max: "\<not> max_reached (rs_config ?rs)"
    by (simp add: max_reached_def)
  have due: "current_due_of ?env (rs_task_data ?rs) = Some ?due"
    by (simp add: current_due_of_def dict_get_default_def dict_get_def fromisoformat_def
        digit_val_def valid_date_def days_in_month_def)
  have nxt: "calculate_next_due_date ?due (pattern (rs_config ?rs)) (interval (rs_config ?rs))
               = Some ?next"
    by (simp add: date_eval)
  have iso: "isoformat ?next = ''2026-02-02''"
    by (simp add: date_eval)
  have created: "re_backend ?env (next_task_request (rs_task_data ?rs) ?next)
                   = Reply 201 (Some ?new)" "?new \<noteq> []"
    by (simp_all add: env_on_def backend_creates_def next_task_request_def iso
        dict_get_default_def dict_get_def)
  have save: "re_save_ok ?env" by (simp add: env_on_def)
  have new_id: "dict_get ?new ''id'' = Some (JInt 43)"
    by (simp add: dict_get_def)
  have new_key: "new_task_key ?env ?new = state_key (Some 43)"
    using new_id by (rule new_task_key_int)
  have differ: "new_task_key ?env ?new \<noteq> state_key (Some 42)"
  proof
    assume "new_task_key ?env ?new = state_key (Some 42)"
    then have "state_key (Some 43) = state_key (Some 42)" by (simp only: new_key)
    then have "Some (43::int) = Some 42" by (rule state_key_inj)
    then show False by simp
  qed
  show ?thesis
    using spawn_rekeys_without_delete
      [where store = standup_store, OF ev get open_end open_max due nxt created save refl]
      differ
    by (auto simp add: new_key iso get(2))
qed

text \<open>
  C2, as stated, fails: a failed creation is not answered \<open>RETRY\<close>. In the same setting
  with a backend that answers 500, the handler answers \<open>SUCCESS\<close>.
\<close>

theorem creation_failure_counterexample:
  "rr_status (recurring_handle_task_events (env_on feb_first backend_fails)
                standup_store (Json (completed_event 42 ''u1''))) = ''SUCCESS''
   \<and> rr_status (recurring_handle_task_events (env_on feb_first backend_fails)
                  standup_store (Json (completed_event 42 ''u1''))) \<noteq> ''RETRY''
   \<and> map cr_due_date
         (rr_created (recurring_handle_task_events (env_on feb_first backend_fails)
                        standup_store (Json (completed_event 42 ''u1'')))) = [''2026-02-02'']"
  by (simp add: recurring_eval delivery_eval date_eval)

text \<open>
  C2, amended. For every delivery of a \<open>task.completed\<close> event for a task with active
  recurrence state whose end conditions do not hold and whose next due date is
  computed: if the creation call fails (no answer, or a status other than 201), the
  handler has issued that one request, answers \<open>SUCCESS\<close>, and leaves the state store,
  and with it \<open>occurrences_created\<close>, unchanged.
\<close>

theorem creation_failure_is_acknowledged:
  assumes ev: "is_completion_of event task_id"
    and get: "re_get_ok env" "store (state_key (Some task_id)) = Some rs"
    and open_end: "end_date_readable (rs_config rs)" "\<not> end_date_passed (re_today env) (rs_config rs)"
    and open_max: "\<not> max_reached (rs_config rs)"
    and due: "current_due_of env (rs_task_data rs) = Some current_due"
    and nxt: "calculate_next_due_date current_due (pattern (rs_config rs)) (interval (rs_config rs))
                = Some next_due"
    and failed: "re_backend env (next_task_request (rs_task_data rs) next_due) = NoReply
        \<or> (\<exists>status body. re_backend env (next_task_request (rs_task_data rs) next_due)
               = Reply status body \<and> status \<noteq> 201)"
  shows "recurring_handle_task_events env store (Json event)
           = \<lparr>rr_status = ''SUCCESS'', rr_store = store,
              rr_created = [next_task_request (rs_task_data rs) next_due]\<rparr>"
  unfolding handler_reaches_spawn [where store = store, OF ev get open_end open_max]
  by (rule spawn_failed [OF due nxt failed])


theorem creation_failure_is_acknowledged_witness:
  "recurring_handle_task_events (env_on feb_first backend_fails) standup_store
     (Json (completed_event 42 ''u1''))
   = \<lparr>rr_status = ''SUCCESS'', rr_store = standup_store,
      rr_created = [\<lparr>cr_title = JStr ''Standup'', cr_description = JNull,
                     cr_priority = JStr ''medium'', cr_category = JStr ''work'',
                     cr_due_date = ''2026-02-02''\<rparr>]\<rparr>"
proof -
  let ?env = "env_on feb_first backend_fails"
  let ?rs = "\<lparr>rs_config = \<lparr>pattern = DAILY, interval = 1, end_date = None,
                            max_occurrences = None, occurrences_created = 0\<rparr>,
              rs_task_data = [(''title'', JStr ''Standup''), (''priority'', JStr ''medium''),
                              (''category'', JStr ''work''), (''due_date'', JStr ''2026-02-01'')],
              rs_parent_task_id = None\<rparr>"
  let ?due = "\<lparr>d_year = 2026, d_month = 2, d_day = 1\<rparr>"
  let ?next = "\<lparr>d_year = 2026, d_month = 2, d_day = 2\<rparr>"
  have ev: "is_completion_of (completed_event 42 ''u1'') 42"
    by (rule completed_event_is_completion) simp
  have get: "re_get_ok ?env" "standup_store (state_key (Some 42)) = Some ?rs"
    by (simp_all add: env_on_def standup_store_42)
  have open_end: "end_date_readable (rs_config ?rs)"
      "\<not> end_date_passed (re_today ?env) (rs_config ?rs)"
    by (simp_all add: end_date_readable_def end_date_passed_def)
  have open_max: "\<not> max_reached (rs_config ?rs)"
    by (simp add: max_reached_def)
  have due: "current_due_of ?env (rs_task_data ?rs) = Some ?due"
    by (simp add: current_due_of_def dict_get_default_def dict_get_def fromisoformat_def
        digit_val_def valid_date_def days_in_month_def)
  have nxt: "calculate_next_due_date ?due (pattern (rs_config ?rs)) (interval (rs_config ?rs))
               = Some ?next"
    by (simp add: date_eval)
  have iso: "isoformat ?next = ''2026-02-02''"
    by (simp add: date_eval)
  have failed: "re_backend ?env (next_task_request (rs_task_data ?rs) ?next) = NoReply
        \<or> (\<exists>status body. re_backend ?env (next_task_request (rs_task_data ?rs) ?next)
               = Reply status body \<and> status \<noteq> 201)"
    by (simp add: env_on_def backend_fails_def)
  show ?thesis
    using creation_failure_is_acknowledged
      [where store = standup_store, OF ev get open_end open_max due nxt failed]
    by (simp add: next_task_request_def iso dict_get_default_def dict_get_def)
qed

subsection \<open>Ordinals and dates\<close>






subsection \<open>End of a recurrence, and the next due date\<close>









section \<open>Verification: audit consumer\<close>

subsection \<open>Substring tests\<close>

text \<open>\<open>contains\<close> is the substring relation, and every text that has \<open>uncompleted\<close> in it
  has \<open>completed\<close> in it, two characters further on.\<close>

lemma prefix_uncompleted:
  "prefix ''uncompleted'' s \<Longrightarrow> prefix ''completed'' (drop 2 s)"
  by (auto simp: prefix_def)

lemma contains_drop: "contains (drop n s) needle \<Longrightarrow> needle \<noteq> [] \<Longrightarrow> contains s needle"
proof (induction s arbitrary: n)
  case Nil
  then show ?case by simp
next
  case (Cons c cs)
  then show ?case by (cases n) auto
qed

lemma contains_prefix: "prefix needle s \<Longrightarrow> contains s needle"
  by (cases s) auto

lemma contains_uncompleted: "contains s ''uncompleted'' \<Longrightarrow> contains s ''completed''"
proof (induction s)
  case Nil
  then show ?case by simp
next
  case (Cons c cs)
  from Cons.prems have "prefix ''uncompleted'' (c # cs) \<or> contains cs ''uncompleted''" by simp
  then show ?case
  proof
    assume "prefix ''uncompleted'' (c # cs)"
    then have "prefix ''completed'' (drop 2 (c # cs))" by (rule prefix_uncompleted)
    then have "contains (drop 2 (c # cs)) ''completed''" by (rule contains_prefix)
    then show ?thesis by (rule contains_drop) simp
  next
    assume "contains cs ''uncompleted''"
    then have "contains cs ''completed''" by (rule Cons.IH)
    then show ?thesis by simp
  qed
qed

lemma contains_iff: "contains s needle \<longleftrightarrow> (\<exists>pre post. s = pre @ needle @ post)"
proof (induction s)
  case Nil
  then show ?case by simp
next
  case (Cons c cs)
  show ?case
  proof
    assume "contains (c # cs) needle"
    then have "prefix needle (c # cs) \<or> contains cs needle" by simp
    then show "\<exists>pre post. c # cs = pre @ needle @ post"
    proof
      assume "prefix needle (c # cs)"
      then obtain post where "c # cs = needle @ post" by (auto simp: prefix_def)
      then have "c # cs = [] @ needle @ post" by simp
      then show ?thesis by blast
    next
      assume "contains cs needle"
      with Cons.IH obtain pre post where "cs = pre @ needle @ post" by blast
      then have "c # cs = (c # pre) @ needle @ post" by simp
      then show ?thesis by blast
    qed
  next
    assume "\<exists>pre post. c # cs = pre @ needle @ post"
    then obtain pre post where e: "c # cs = pre @ needle @ post" by blast
    show "contains (c # cs) needle"
    proof (cases pre)
      case Nil
      with e have "prefix needle (c # cs)" by (simp add: prefix_def)
      then show ?thesis by simp
    next
      case (Cons p pre')
      with e have "cs = pre' @ needle @ post" by simp
      with Cons.IH have "contains cs needle" by blast
      then show ?thesis by simp
    qed
  qed
qed


subsection \<open>The action of an event type\<close>

text \<open>
  C5 holds of the five-way chain only up to its fourth test. The chain looks for
  \<open>completed\<close> before \<open>uncompleted\<close>, so the event type \<open>task.uncompleted\<close>, which
  \<open>TaskCompletedEvent.from_task\<close> emits when a task is reopened, is recorded with the
  action \<open>completed\<close>, the same as \<open>task.completed\<close>; the branch that assigns
  \<open>uncompleted\<close> can never be taken, for any event type.
\<close>

theorem uncompleted_is_audited_as_completed:
  "audit_action ''task.uncompleted'' = ''completed''
   \<and> audit_action ''task.completed'' = ''completed''
   \<and> (\<forall>event_type. audit_action event_type \<noteq> ''uncompleted'')
   \<and> map_option al_action
         (parse_event_to_audit (audit_env_with True) (uncompleted_event 42 ''u1'') ''task-events'')
       = Some ''completed''"
proof -
  have a: "audit_action ''task.uncompleted'' = ''completed''"
    by (simp add: audit_action_def)
  have b: "audit_action ''task.completed'' = ''completed''"
    by (simp add: audit_action_def)
  have c: "\<And>event_type. audit_action event_type \<noteq> ''uncompleted''"
    using contains_uncompleted by (simp add: audit_action_def)
  have d: "map_option al_action
         (parse_event_to_audit (audit_env_with True) (uncompleted_event 42 ''u1'') ''task-events'')
       = Some ''completed''"
    by (simp add: parse_event_to_audit_def uncompleted_event_def audit_env_with_def a
        audit_timestamp_def Let_def split: prod.splits)
  from a b c d show ?thesis by blast
qed

theorem uncompleted_is_audited_as_completed_witness:
  "audit_action (EventType_value TASK_UNCOMPLETED) = audit_action (EventType_value TASK_COMPLETED)
   \<and> audit_action (EventType_value TASK_UNCOMPLETED) \<noteq> ''uncompleted''"
  using uncompleted_is_audited_as_completed by simp

subsection \<open>What the delivery handler answers\<close>

lemma audit_timestamp_None:
  "audit_timestamp env event = None
     \<longleftrightarrow> (\<exists>t. ev_time event = Some t \<and> t \<noteq> [] \<and> ae_fromisoformat env (replace_Z t) = None)"
  by (cases "ev_time event") (simp_all add: audit_timestamp_def)

lemma parse_event_to_audit_None:
  "parse_event_to_audit env event topic = None \<longleftrightarrow> audit_timestamp env event = None"
  by (cases "audit_timestamp env event")
     (simp_all add: parse_event_to_audit_def Let_def split: prod.splits)

lemma save_audit_log_failed:
  "ae_engine env \<Longrightarrow> \<not> ae_commit_ok env audit \<Longrightarrow> save_audit_log env table audit = (False, table)"
  by (simp add: save_audit_log_def)

text \<open>
  C3, as stated, fails: with an engine whose commit raises, the delivery of a
  well-formed completion event is answered \<open>SUCCESS\<close>, and nothing is in the table.
\<close>

theorem insert_failure_counterexample:
  "audit_handle_task_events (audit_env_with False) [] (Json (completed_event 42 ''u1''))
     = (''SUCCESS'', [])
   \<and> fst (audit_handle_task_events (audit_env_with False) []
             (Json (completed_event 42 ''u1''))) \<noteq> ''RETRY''"
  by (simp add: audit_handle_task_events_def audit_handle_def parse_event_to_audit_def
      save_audit_log_def audit_env_with_def completed_event_def audit_timestamp_def Let_def
      split: prod.splits)

text \<open>
  C3, amended. For every event delivered to the audit consumer, on any of its three
  endpoints (each is \<open>audit_handle\<close> at its topic), if the single insert of the derived
  audit log entry into the configured store throws, \<open>save_audit_log\<close> catches the
  exception and the delivery handler answers \<open>SUCCESS\<close>, with the table unchanged.
\<close>

theorem insert_failure_is_swallowed:
  assumes "parse_event_to_audit env event topic = Some audit"
    and "ae_engine env"
    and "\<not> ae_commit_ok env audit"
  shows "audit_handle topic env table (Json event) = (''SUCCESS'', table)"
  using assms by (simp add: audit_handle_def save_audit_log_failed)

theorem insert_failure_is_swallowed_witness:
  "audit_handle_task_events (audit_env_with False)
     [\<lparr>al_id = Some 1, al_event_id = ''evt-0'', al_event_type = ''task.created'',
       al_topic = ''task-events'', al_user_id = Some ''u1'', al_entity_type = ''task'',
       al_entity_id = Some 42, al_action = ''created'', al_old_data = None,
       al_new_data = None, al_event_metadata = None, al_source = ''todo-backend'',
       al_timestamp = ''2026-02-01T08:00:00''\<rparr>]
     (Json (uncompleted_event 42 ''u1''))
   = (''SUCCESS'',
      [\<lparr>al_id = Some 1, al_event_id = ''evt-0'', al_event_type = ''task.created'',
        al_topic = ''task-events'', al_user_id = Some ''u1'', al_entity_type = ''task'',
        al_entity_id = Some 42, al_action = ''created'', al_old_data = None,
        al_new_data = None, al_event_metadata = None, al_source = ''todo-backend'',
        al_timestamp = ''2026-02-01T08:00:00''\<rparr>])"
proof -
  have "parse_event_to_audit (audit_env_with False) (uncompleted_event 42 ''u1'')
          ''task-events'' \<noteq> None"
    by (simp add: parse_event_to_audit_None audit_timestamp_def uncompleted_event_def)
  then obtain audit where p: "parse_event_to_audit (audit_env_with False)
                                (uncompleted_event 42 ''u1'') ''task-events'' = Some audit"
    by blast
  have e: "ae_engine (audit_env_with False)" by (simp add: audit_env_with_def)
  have f: "\<not> ae_commit_ok (audit_env_with False) audit" by (simp add: audit_env_with_def)
  show ?thesis
    unfolding audit_handle_task_events_def
    by (rule insert_failure_is_swallowed [OF p e f])
qed

section \<open>Verification: notification consumer\<close>

subsection \<open>Outcomes of the task-events handler\<close>

lemma task_notification_unmapped:
  assumes "event_type \<notin> {''task.created'', ''task.completed'', ''task.uncompleted'',
                           ''task.deleted'', ''task.updated''}"
  shows "task_notification utcnow event_type data = None"
  using assms by (simp add: task_notification_def)

lemma task_notification_no_changes:
  assumes "ed_changes data = None \<or> ed_changes data = Some []"
  shows "task_notification utcnow ''task.updated'' data = None"
  using assms by (auto simp: task_notification_def)

text \<open>
  C4, as stated, fails: a completion event whose payload has no user id is answered
  with the status \<open>SKIP\<close>, which is neither \<open>SUCCESS\<close> nor \<open>RETRY\<close>.
\<close>

theorem missing_user_counterexample:
  "nr_status (notification_handle_task_events ''2026-02-01T09:00:00'' {} two_sockets
                (Json anonymous_event)) = ''SKIP''
   \<and> nr_status (notification_handle_task_events ''2026-02-01T09:00:00'' {} two_sockets
                  (Json anonymous_event)) \<noteq> ''SUCCESS''
   \<and> nr_status (notification_handle_task_events ''2026-02-01T09:00:00'' {} two_sockets
                  (Json anonymous_event)) \<noteq> ''RETRY''"
  by (simp add: notification_handle_task_events_def anonymous_event_def get_data_def
      empty_data_def)

text \<open>
  C4, amended. For every event delivered to the notification consumer, on any of its
  three endpoints, the outcome is one of exactly \<open>SUCCESS\<close>, \<open>RETRY\<close> or \<open>SKIP\<close>. On the
  task-events endpoint, an event whose data lacks a user id (absent or empty) is
  answered \<open>SKIP\<close>; an event with a user id whose type has no notification mapping (a
  type outside the five mapped ones, or \<open>task.updated\<close> without changes) is accepted as
  \<open>SUCCESS\<close>. In both cases no notification is built, no push is attempted and the
  registry is unchanged.
\<close>

theorem notification_outcomes:
  "nr_status (notification_handle_task_events utcnow failing conns request)
     \<in> {''SUCCESS'', ''RETRY'', ''SKIP''}
   \<and> nr_status (notification_handle_reminders utcnow failing conns request)
     \<in> {''SUCCESS'', ''RETRY'', ''SKIP''}
   \<and> nr_status (notification_handle_task_updates utcnow failing conns request)
     \<in> {''SUCCESS'', ''RETRY'', ''SKIP''}
   \<and> (\<not> truthy_str (ed_user_id (get_data event))
        \<longrightarrow> notification_handle_task_events utcnow failing conns (Json event)
              = \<lparr>nr_status = ''SKIP'', nr_conns = conns, nr_notification = None,
                 nr_attempted = {}\<rparr>)
   \<and> (truthy_str (ed_user_id (get_data event))
        \<and> (ev_type event = None
            \<or> (\<exists>t. ev_type event = Some t
                    \<and> t \<notin> {''task.created'', ''task.completed'', ''task.uncompleted'',
                             ''task.deleted'', ''task.updated''})
            \<or> (ev_type event = Some ''task.updated''
                \<and> (ed_changes (get_data event) = None \<or> ed_changes (get_data event) = Some [])))
        \<longrightarrow> notification_handle_task_events utcnow failing conns (Json event)
              = \<lparr>nr_status = ''SUCCESS'', nr_conns = conns, nr_notification = None,
                 nr_attempted = {}\<rparr>)"
proof -
  have a: "nr_status (notification_handle_task_events utcnow failing conns request)
             \<in> {''SUCCESS'', ''RETRY'', ''SKIP''}"
    by (simp add: notification_handle_task_events_def Let_def
        split: request_json.splits option.splits)
  have a2: "nr_status (notification_handle_reminders utcnow failing conns request)
             \<in> {''SUCCESS'', ''RETRY'', ''SKIP''}"
    by (simp add: notification_handle_reminders_def Let_def
        split: request_json.splits option.splits)
  have a3: "nr_status (notification_handle_task_updates utcnow failing conns request)
             \<in> {''SUCCESS'', ''RETRY'', ''SKIP''}"
    by (simp add: notification_handle_task_updates_def Let_def
        split: request_json.splits option.splits)
  have b: "notification_handle_task_events utcnow failing conns (Json event)
              = \<lparr>nr_status = ''SKIP'', nr_conns = conns, nr_notification = None,
                 nr_attempted = {}\<rparr>"
    if "\<not> truthy_str (ed_user_id (get_data event))"
    using that
    by (simp add: notification_handle_task_events_def truthy_str_def Let_def
        split: option.splits)
  have c: "notification_handle_task_events utcnow failing conns (Json event)
              = \<lparr>nr_status = ''SUCCESS'', nr_conns = conns, nr_notification = None,
                 nr_attempted = {}\<rparr>"
    if u: "truthy_str (ed_user_id (get_data event))"
      and t: "ev_type event = None
            \<or> (\<exists>t. ev_type event = Some t
                    \<and> t \<notin> {''task.created'', ''task.completed'', ''task.uncompleted'',
                             ''task.deleted'', ''task.updated''})
            \<or> (ev_type event = Some ''task.updated''
                \<and> (ed_changes (get_data event) = None \<or> ed_changes (get_data event) = Some []))"
  proof -
    obtain user_id where uid: "ed_user_id (get_data event) = Some user_id" "user_id \<noteq> []"
      using u by (auto simp: truthy_str_def split: option.splits)
    have none: "task_notification utcnow (case ev_type event of None \<Rightarrow> [] | Some t \<Rightarrow> t)
                  (get_data event) = None"
      using t by (auto simp: task_notification_def)
    show ?thesis
      by (simp add: notification_handle_task_events_def Let_def uid none)
  qed
  show ?thesis
  proof (intro conjI impI)
    show "nr_status (notification_handle_task_events utcnow failing conns request)
            \<in> {''SUCCESS'', ''RETRY'', ''SKIP''}"
      by (rule a)
  next
    show "nr_status (notification_handle_reminders utcnow failing conns request)
            \<in> {''SUCCESS'', ''RETRY'', ''SKIP''}"
      by (rule a2)
  next
    show "nr_status (notification_handle_task_updates utcnow failing conns request)
            \<in> {''SUCCESS'', ''RETRY'', ''SKIP''}"
      by (rule a3)
  next
    assume "\<not> truthy_str (ed_user_id (get_data event))"
    then show "notification_handle_task_events utcnow failing conns (Json event)
              = \<lparr>nr_status = ''SKIP'', nr_conns = conns, nr_notification = None,
                 nr_attempted = {}\<rparr>"
      by (rule b)
  next
    assume h: "truthy_str (ed_user_id (get_data event))
        \<and> (ev_type event = None
            \<or> (\<exists>t. ev_type event = Some t
                    \<and> t \<notin> {''task.created'', ''task.completed'', ''task.uncompleted'',
                             ''task.deleted'', ''task.updated''})
            \<or> (ev_type event = Some ''task.updated''
                \<and> (ed_changes (get_data event) = None \<or> ed_changes (get_data event) = Some [])))"
    show "notification_handle_task_events utcnow failing conns (Json event)
              = \<lparr>nr_status = ''SUCCESS'', nr_conns = conns, nr_notification = None,
                 nr_attempted = {}\<rparr>"
      by (rule c [OF conjunct1 [OF h] conjunct2 [OF h]])
  qed
qed

theorem notification_outcomes_witness:
  "notification_handle_task_events ''2026-02-01T09:00:00'' {2} two_sockets (Json archived_event)
     = \<lparr>nr_status = ''SUCCESS'', nr_conns = two_sockets, nr_notification = None,
        nr_attempted = {}\<rparr>
   \<and> notification_handle_task_events ''2026-02-01T09:00:00'' {2} two_sockets
       (Json anonymous_event)
     = \<lparr>nr_status = ''SKIP'', nr_conns = two_sockets, nr_notification = None,
        nr_attempted = {}\<rparr>"
proof -
  have u: "truthy_str (ed_user_id (get_data archived_event))"
    by (simp add: archived_event_def get_data_def empty_data_def truthy_str_def)
  have t: "\<exists>t. ev_type archived_event = Some t
               \<and> t \<notin> {''task.created'', ''task.completed'', ''task.uncompleted'',
                        ''task.deleted'', ''task.updated''}"
    by (simp add: archived_event_def)
  have n: "\<not> truthy_str (ed_user_id (get_data anonymous_event))"
    by (simp add: anonymous_event_def get_data_def empty_data_def truthy_str_def)
  show ?thesis
    using notification_outcomes [of "''2026-02-01T09:00:00''" "{2}" two_sockets "JsonError"
        archived_event]
      notification_outcomes [of "''2026-02-01T09:00:00''" "{2}" two_sockets "JsonError"
        anonymous_event] u t n
    by blast
qed

subsection \<open>The connection registry\<close>

lemma connect_conv:
  "connect conns websocket user_id
     = conns(user_id \<mapsto> insert websocket (case conns user_id of None \<Rightarrow> {} | Some s \<Rightarrow> s))"
  by (cases "conns user_id") (auto simp: connect_def Let_def)

lemma connect_preserves_inv: "registry_inv conns \<Longrightarrow> registry_inv (connect conns websocket user_id)"
  by (simp add: connect_conv registry_inv_def)

lemma disconnect_preserves_inv:
  "registry_inv conns \<Longrightarrow> registry_inv (disconnect conns websocket user_id)"
  by (cases "conns user_id") (auto simp: disconnect_def registry_inv_def)

lemma dom_connect: "dom (connect conns websocket user_id) = insert user_id (dom conns)"
  by (simp add: connect_conv)

lemma dom_send_to_user: "dom (sent_conns (send_to_user failing conns user_id message)) = dom conns"
  by (cases "conns user_id") (auto simp: send_to_user_def Let_def)

lemma dom_broadcast: "dom (broadcast failing conns keys message) = dom conns"
  unfolding broadcast_def
  by (induction keys arbitrary: conns) (simp_all add: dom_send_to_user)

lemma send_to_user_all_fail:
  assumes "conns user_id = Some sockets" and "sockets \<subseteq> failing"
  shows "sent_conns (send_to_user failing conns user_id message) user_id = Some {}"
proof -
  have "sockets - sockets \<inter> failing = {}" using assms(2) by blast
  then show ?thesis using assms(1) by (simp add: send_to_user_def Let_def)
qed

lemma disconnect_last:
  "conns user_id = Some {websocket} \<Longrightarrow> user_id \<notin> dom (disconnect conns websocket user_id)"
  by (simp add: disconnect_def)

lemma two_sockets_inv: "registry_inv two_sockets"
  by (simp add: registry_inv_def two_sockets_def)

lemma two_sockets_broken:
  "\<not> registry_inv (sent_conns (send_to_user {1, 2} two_sockets ''u1'' message))"
proof
  assume inv: "registry_inv (sent_conns (send_to_user {1, 2} two_sockets ''u1'' message))"
  have "sent_conns (send_to_user {1, 2} two_sockets ''u1'' message) ''u1'' = Some {}"
    by (rule send_to_user_all_fail [where sockets = "{1, 2}"]) (simp_all add: two_sockets_def)
  with inv show False unfolding registry_inv_def by blast
qed

text \<open>
  C10. In the connection registry, \<open>connect\<close>, \<open>send_to_user\<close> and \<open>broadcast\<close> never remove
  a user's key (the set of keys grows by the connecting user, or stays as it is), while
  \<open>disconnect\<close> of a user's last socket removes it. If every socket of a user fails
  during \<open>send_to_user\<close>, the user stays registered, mapped to the empty set. So the
  invariant that every registered user id maps to a non-empty set is preserved by
  \<open>connect\<close> and by \<open>disconnect\<close>, and there is a \<open>send_to_user\<close> that breaks it.
\<close>

theorem registry_keys_and_invariant:
  "dom (connect conns websocket user_id) = insert user_id (dom conns)
   \<and> dom (sent_conns (send_to_user failing conns user_id message)) = dom conns
   \<and> dom (broadcast failing conns keys message) = dom conns
   \<and> (conns user_id = Some {websocket}
        \<longrightarrow> user_id \<notin> dom (disconnect conns websocket user_id))
   \<and> (conns user_id = Some sockets \<and> sockets \<subseteq> failing
        \<longrightarrow> sent_conns (send_to_user failing conns user_id message) user_id = Some {})
   \<and> (registry_inv conns \<longrightarrow> registry_inv (connect conns websocket user_id))
   \<and> (registry_inv conns \<longrightarrow> registry_inv (disconnect conns websocket user_id))
   \<and> (\<exists>c f u. registry_inv c \<and> \<not> registry_inv (sent_conns (send_to_user f c u message)))"
proof -
  have broken: "\<exists>c f u. registry_inv c
                  \<and> \<not> registry_inv (sent_conns (send_to_user f c u message))"
    using two_sockets_inv two_sockets_broken by blast
  have last: "conns user_id = Some {websocket}
        \<longrightarrow> user_id \<notin> dom (disconnect conns websocket user_id)"
    using disconnect_last by blast
  have emptied: "conns user_id = Some sockets \<and> sockets \<subseteq> failing
        \<longrightarrow> sent_conns (send_to_user failing conns user_id message) user_id = Some {}"
    using send_to_user_all_fail by blast
  have kept: "registry_inv conns \<longrightarrow> registry_inv (connect conns websocket user_id)"
      "registry_inv conns \<longrightarrow> registry_inv (disconnect conns websocket user_id)"
    using connect_preserves_inv disconnect_preserves_inv by blast+
  show ?thesis
    using dom_connect [of conns websocket user_id]
      dom_send_to_user [of failing conns user_id message]
      dom_broadcast [of failing conns keys message] last emptied kept broken
    by blast
qed

theorem registry_keys_and_invariant_witness:
  "sent_conns (send_to_user {1, 2} two_sockets ''u1'' [(''type'', JStr ''sync'')]) ''u1''
     = Some {}
   \<and> dom (sent_conns (send_to_user {1, 2} two_sockets ''u1'' [(''type'', JStr ''sync'')]))
     = {''u1''}
   \<and> registry_inv (connect two_sockets 3 ''u2'')
   \<and> registry_inv (disconnect two_sockets 1 ''u1'')"
proof -
  have s: "two_sockets ''u1'' = Some {1, 2} \<and> {1, 2} \<subseteq> ({1, 2} :: nat set)"
    by (simp add: two_sockets_def)
  have d: "dom two_sockets = {''u1''}" by (simp add: two_sockets_def)
  show ?thesis
    using registry_keys_and_invariant
      [of two_sockets 3 "''u2''" "{1, 2}" "[(''type'', JStr ''sync'')]" "[]" "{1, 2}"]
      registry_keys_and_invariant
      [of two_sockets 1 "''u1''" "{1, 2}" "[(''type'', JStr ''sync'')]" "[]" "{1, 2}"]
      s d two_sockets_inv
    by simp
qed

end
